theory Spec2Isabelle
  imports Main "HOL-Library.Finite_Map"
begin

section \<open>JavaScript values\<close>

text \<open>
  The values that the handlers of \<^verbatim>\<open>server.js\<close> move around are JSON values: request
  bodies parsed by \<^verbatim>\<open>express.json()\<close>, and the records of \<^verbatim>\<open>db.json\<close>. An object is a
  finite map from its own property names to values. The JavaScript value \<^verbatim>\<open>undefined\<close>
  (an absent property) is \<open>None\<close> of \<open>jval option\<close>.

  A number is held as its string form, the result of \<^verbatim>\<open>Number.prototype.toString\<close>:
  \<^verbatim>\<open>7\<close> is \<open>Num ''7''\<close>, \<^verbatim>\<open>1.5\<close> is \<open>Num ''1.5''\<close>, \<^verbatim>\<open>1e21\<close> is \<open>Num ''1e+21''\<close>, both zeros are
  \<open>Num ''0''\<close>, and the numbers that are not finite are \<open>Num ''Infinity''\<close>,
  \<open>Num ''-Infinity''\<close> and \<open>Num ''NaN''\<close>. All that the handlers do with a number, which is \<^verbatim>\<open>String(n)\<close>, the test
  \<^verbatim>\<open>!n\<close> and writing it out as JSON, depends on this form only.
\<close>

datatype jsnum = Num string

instantiation jsnum :: zero
begin

definition zero_jsnum :: jsnum where
  "zero_jsnum = Num ''0''"

instance ..

end

datatype jval =
    JNull
  | JBool bool
  | JNum jsnum
  | JStr string
  | JArr "jval list"
  | JObj "(string, jval) fmap"

type_synonym obj = "(string, jval) fmap"

text \<open>
  What is left of a value once it has been written as JSON text, by \<^verbatim>\<open>JSON.stringify\<close>, and
  read back: the value itself, but for the numbers that are not finite, which are
  written as \<^verbatim>\<open>null\<close>. Of these \<^verbatim>\<open>JSON.parse\<close> yields \<^verbatim>\<open>Infinity\<close> and \<^verbatim>\<open>-Infinity\<close>, for a
  literal such as \<^verbatim>\<open>1e400\<close>.
\<close>

primrec to_json :: "jval \<Rightarrow> jval" where
  "to_json JNull = JNull"
| "to_json (JBool b) = JBool b"
| "to_json (JNum n) =
     (if n = Num ''Infinity'' \<or> n = Num ''-Infinity'' \<or> n = Num ''NaN'' then JNull else JNum n)"
| "to_json (JStr t) = JStr t"
| "to_json (JArr vs) = JArr (map to_json vs)"
| "to_json (JObj ob) = JObj (fmmap to_json ob)"

text \<open>
  Property access \<^verbatim>\<open>o.k\<close> on an object, for the keys the handlers read (\<^verbatim>\<open>id\<close>, \<^verbatim>\<open>name\<close>,
  \<^verbatim>\<open>email\<close>): the own property, since \<^verbatim>\<open>Object.prototype\<close> has none of them.
\<close>

definition obj_get :: "obj \<Rightarrow> string \<Rightarrow> jval option" where
  "obj_get ob k = fmlookup ob k"

text \<open>Object spread \<^verbatim>\<open>{...a, ...b}\<close>: the properties of \<open>b\<close> are copied over those of \<open>a\<close>.\<close>

definition spread :: "obj \<Rightarrow> obj \<Rightarrow> obj" where
  "spread a b = a ++\<^sub>f b"

text \<open>
  An object literal \<^verbatim>\<open>{k1: v1, ..., kn: vn}\<close>; a later property overwrites an earlier one.
  A property whose value is \<^verbatim>\<open>undefined\<close> is left out, as it is from the JSON text that
  \<^verbatim>\<open>res.json\<close> and the datastore write.
\<close>

definition obj_lit :: "(string \<times> jval option) list \<Rightarrow> obj" where
  "obj_lit kvs =
     fold (\<lambda>(k, v) ob. case v of None \<Rightarrow> fmdrop k ob | Some w \<Rightarrow> fmupd k w ob) kvs fmempty"

text \<open>Decimal notation of a natural number, most significant digit first.\<close>

definition digit :: "nat \<Rightarrow> char" where
  "digit d = ''0123456789'' ! (d mod 10)"

fun show_nat :: "nat \<Rightarrow> string" where
  "show_nat n = (if n < 10 then [digit n] else show_nat (n div 10) @ [digit (n mod 10)])"

declare show_nat.simps [simp del]

definition show_int :: "int \<Rightarrow> string" where
  "show_int i = (if i < 0 then ''-'' @ show_nat (nat (- i)) else show_nat (nat i))"

text \<open>
  The number \<^verbatim>\<open>xs.length\<close> of an array. An array holds fewer than \<open>2^32\<close> elements, and
  the string form of such a number is its decimal notation.
\<close>

definition num_of_length :: "nat \<Rightarrow> jsnum" where
  "num_of_length n = Num (show_nat n)"

section \<open>Errors\<close>

text \<open>
  What a handler can throw: the engine's \<^verbatim>\<open>TypeError\<close> and \<^verbatim>\<open>ReferenceError\<close>, a failure of
  the datastore's file I/O, and the error of Express when a response is sent twice. Each
  carries its \<^verbatim>\<open>message\<close>.
\<close>

datatype js_error =
    TypeError string
  | ReferenceError string
  | StorageError string
  | HeadersSent

fun error_message :: "js_error \<Rightarrow> string" where
  "error_message (TypeError m) = m"
| "error_message (ReferenceError m) = m"
| "error_message (StorageError m) = m"
| "error_message HeadersSent = ''Cannot set headers after they are sent to the client''"

text \<open>Reading property \<open>p\<close> of \<^verbatim>\<open>undefined\<close>, and evaluating an undeclared variable \<open>x\<close>.\<close>

definition cannot_read :: "string \<Rightarrow> js_error" where
  "cannot_read p =
     TypeError (''Cannot read properties of undefined (reading '' @ [CHR 0x27] @ p @ [CHR 0x27] @ '')'')"

definition not_defined :: "string \<Rightarrow> js_error" where
  "not_defined x = ReferenceError (x @ '' is not defined'')"

section \<open>Conversion to a string, truthiness\<close>

text \<open>
  \<^verbatim>\<open>String(v)\<close>. A string is itself and a number is its string form. An array is its
  elements joined by commas, converted from left to right, where \<^verbatim>\<open>null\<close> gives the empty
  string. An object is converted by the \<^verbatim>\<open>toString\<close> it finds: without an own property
  of that name it is \<^verbatim>\<open>Object.prototype.toString\<close>, which gives \<^verbatim>\<open>[object Object]\<close>; an own
  \<^verbatim>\<open>toString\<close> property holds a JSON value, which cannot be called, and since
  \<^verbatim>\<open>valueOf\<close> yields no primitive either the conversion throws a \<^verbatim>\<open>TypeError\<close>.
\<close>

definition cannot_convert :: js_error where
  "cannot_convert = TypeError ''Cannot convert object to primitive value''"

fun js_String_val :: "jval \<Rightarrow> js_error + string"
  and js_join :: "jval list \<Rightarrow> js_error + string" where
  "js_String_val JNull = Inr ''null''"
| "js_String_val (JBool b) = Inr (if b then ''true'' else ''false'')"
| "js_String_val (JNum (Num t)) = Inr t"
| "js_String_val (JStr s) = Inr s"
| "js_String_val (JArr vs) = js_join vs"
| "js_String_val (JObj ob) =
     (if ''toString'' |\<in>| fmdom ob then Inl cannot_convert else Inr ''[object Object]'')"
| "js_join [] = Inr []"
| "js_join (v # vs) =
     (case (if v = JNull then Inr [] else js_String_val v) of
        Inl err \<Rightarrow> Inl err
      | Inr t \<Rightarrow>
          (if vs = [] then Inr t
           else case js_join vs of Inl err \<Rightarrow> Inl err | Inr r \<Rightarrow> Inr (t @ '','' @ r)))"

definition js_String :: "jval option \<Rightarrow> js_error + string" where
  "js_String v = (case v of None \<Rightarrow> Inr ''undefined'' | Some w \<Rightarrow> js_String_val w)"

text \<open>Truthiness, as \<^verbatim>\<open>!v\<close> and \<^verbatim>\<open>||\<close> test it.\<close>

fun truthy_val :: "jval \<Rightarrow> bool" where
  "truthy_val JNull = False"
| "truthy_val (JBool b) = b"
| "truthy_val (JNum n) = (n \<noteq> 0 \<and> n \<noteq> Num ''NaN'')"
| "truthy_val (JStr s) = (s \<noteq> [])"
| "truthy_val (JArr vs) = True"
| "truthy_val (JObj ob) = True"

definition truthy :: "jval option \<Rightarrow> bool" where
  "truthy v = (case v of None \<Rightarrow> False | Some w \<Rightarrow> truthy_val w)"

subsection \<open>Array methods\<close>

text \<open>
  \<^verbatim>\<open>xs.find(p)\<close> and \<^verbatim>\<open>xs.findIndex(p)\<close>: the first element satisfying \<open>p\<close>, or
  \<^verbatim>\<open>undefined\<close>, and its index, or \<open>-1\<close>. The callback is run on the elements in order; when
  it throws, the search ends with that exception.
\<close>

fun js_find :: "('a \<Rightarrow> js_error + bool) \<Rightarrow> 'a list \<Rightarrow> js_error + 'a option" where
  "js_find p [] = Inr None"
| "js_find p (x # xs) =
     (case p x of Inl err \<Rightarrow> Inl err | Inr b \<Rightarrow> if b then Inr (Some x) else js_find p xs)"

fun findIndex_from :: "('a \<Rightarrow> js_error + bool) \<Rightarrow> 'a list \<Rightarrow> int \<Rightarrow> js_error + int" where
  "findIndex_from p [] k = Inr (- 1)"
| "findIndex_from p (x # xs) k =
     (case p x of Inl err \<Rightarrow> Inl err | Inr b \<Rightarrow> if b then Inr k else findIndex_from p xs (k + 1))"

definition findIndex :: "('a \<Rightarrow> js_error + bool) \<Rightarrow> 'a list \<Rightarrow> js_error + int" where
  "findIndex p xs = findIndex_from p xs 0"

text \<open>
  \<^verbatim>\<open>xs.splice(start, count)\<close>: the removed elements and the array that is left. A negative
  start counts from the end; start and count are clamped to the array.
\<close>

definition splice :: "int \<Rightarrow> nat \<Rightarrow> 'a list \<Rightarrow> 'a list \<times> 'a list" where
  "splice start cnt xs =
     (let len = int (length xs);
          k = nat (if start < 0 then max (len + start) 0 else min start len);
          c = min cnt (length xs - k)
      in (take c (drop k xs), take k xs @ drop (k + c) xs))"

text \<open>\<^verbatim>\<open>xs[0]\<close>, which is \<^verbatim>\<open>undefined\<close> on an empty array.\<close>

definition first_elem :: "'a list \<Rightarrow> 'a option" where
  "first_elem xs = (case xs of [] \<Rightarrow> None | x # _ \<Rightarrow> Some x)"

section \<open>The response writer\<close>

record response =
  status :: nat
  body :: jval

section \<open>The datastore\<close>

text \<open>
  Modelled from the spec: \<^verbatim>\<open>database.js\<close> and the store library behind it are not among the
  sources. The datastore holds an in-memory document and a persisted one; \<^verbatim>\<open>read()\<close>
  reloads the in-memory state from disk, \<^verbatim>\<open>write()\<close> persists the in-memory state, and
  \<^verbatim>\<open>update(mutator)\<close> mutates the in-memory state and then flushes it. Any of the file
  operations can fail with a storage error. The document is an object whose key
  \<^verbatim>\<open>students\<close> holds an array of records; \<open>None\<close> is the document without that key.
  Field \<open>ops\<close> records every file operation that was attempted.
\<close>

datatype io_op = Read | Write

record datastore =
  students :: "obj list option"
  disk :: "obj list option"
  ops :: "io_op list"

text \<open>
  What a request finds outside the handler: the value \<^verbatim>\<open>uuidv4()\<close> returns, the value
  \<^verbatim>\<open>new Date().toISOString()\<close> returns, and whether reading or writing the file fails
  (with which message).
\<close>

record env =
  uuid :: string
  now :: string
  read_error :: "string option"
  write_error :: "string option"

text \<open>
  Modelled from the spec: \<^verbatim>\<open>db.read()\<close> of the absent \<^verbatim>\<open>database.js\<close>, which reloads the
  in-memory state from disk, or fails with a storage error.
\<close>

definition db_read :: "env \<Rightarrow> datastore \<Rightarrow> (js_error + unit) \<times> datastore" where
  "db_read e d =
     (case read_error e of
        Some m \<Rightarrow> (Inl (StorageError m), d\<lparr>ops := ops d @ [Read]\<rparr>)
      | None \<Rightarrow> (Inr (), d\<lparr>students := disk d, ops := ops d @ [Read]\<rparr>))"

text \<open>
  Modelled from the spec: \<^verbatim>\<open>db.write()\<close> of the absent \<^verbatim>\<open>database.js\<close>, which persists the
  in-memory state to disk, or fails with a storage error and leaves the disk as it was.
  The file holds JSON text, so the records read back later are those of \<open>to_json\<close>.
\<close>

definition db_write :: "env \<Rightarrow> datastore \<Rightarrow> (js_error + unit) \<times> datastore" where
  "db_write e d =
     (case write_error e of
        Some m \<Rightarrow> (Inl (StorageError m), d\<lparr>ops := ops d @ [Write]\<rparr>)
      | None \<Rightarrow>
          (Inr (), d\<lparr>disk := map_option (map (fmmap to_json)) (students d),
                     ops := ops d @ [Write]\<rparr>))"

text \<open>
  Modelled from the spec: \<^verbatim>\<open>db.update(mutator)\<close> of the absent \<^verbatim>\<open>database.js\<close>, the
  mutate-then-flush operation. It does not reload. The mutator
  \<^verbatim>\<open>({ students }) => ...\<close> gets the in-memory array, may throw, and yields a value for
  the enclosing handler together with the mutated array; what it changed in memory stays
  changed when the flush fails.
\<close>

definition db_update ::
  "env \<Rightarrow> (obj list option \<Rightarrow> js_error + 'a \<times> obj list option) \<Rightarrow> datastore
    \<Rightarrow> (js_error + 'a) \<times> datastore" where
  "db_update e f d =
     (case f (students d) of
        Inl err \<Rightarrow> (Inl err, d)
      | Inr (r, ss) \<Rightarrow>
          (case db_write e (d\<lparr>students := ss\<rparr>) of
             (Inl err, d') \<Rightarrow> (Inl err, d')
           | (Inr u, d') \<Rightarrow> (Inr r, d')))"

section \<open>Handler state\<close>

text \<open>
  A handler runs on the datastore and on the response writer of its request: \<open>res\<close> is
  the response that has gone to the client, if any. Its result is that state and, on
  the left, the exception that escaped the handler.
\<close>

record state =
  store :: datastore
  res :: "response option"

definition start :: "datastore \<Rightarrow> state" where
  "start d = \<lparr>store = d, res = None\<rparr>"

text \<open>
  \<^verbatim>\<open>res.status(c).json(b)\<close>: the body goes out as JSON text, so the client receives
  \<open>to_json b\<close>. A second send throws and does not reach the client.
\<close>

definition res_json :: "nat \<Rightarrow> jval \<Rightarrow> state \<Rightarrow> (js_error + unit) \<times> state" where
  "res_json c b s =
     (case res s of
        None \<Rightarrow> (Inr (), s\<lparr>res := Some \<lparr>status = c, body = to_json b\<rparr>\<rparr>)
      | Some r \<Rightarrow> (Inl HeadersSent, s))"

text \<open>The \<^verbatim>\<open>catch (error)\<close> block of every handler: a 500 with the handler's message.\<close>

definition catch_500 :: "string \<Rightarrow> (js_error + unit) \<times> state \<Rightarrow> (js_error + unit) \<times> state" where
  "catch_500 msg r =
     (case r of
        (Inr u, s) \<Rightarrow> (Inr u, s)
      | (Inl err, s) \<Rightarrow>
          res_json 500
            (JObj (obj_lit [(''success'', Some (JBool False)),
                            (''message'', Some (JStr msg)),
                            (''error'', Some (JStr (error_message err)))])) s)"

text \<open>Lifting a datastore operation to the handler state.\<close>

definition on_db :: "(datastore \<Rightarrow> (js_error + 'a) \<times> datastore) \<Rightarrow> state \<Rightarrow> (js_error + 'a) \<times> state" where
  "on_db f s = (case f (store s) of (r, d) \<Rightarrow> (r, s\<lparr>store := d\<rparr>))"

text \<open>The bodies that several handlers send.\<close>

definition not_found_body :: jval where
  "not_found_body =
     JObj (obj_lit [(''success'', Some (JBool False)), (''message'', Some (JStr ''Student not found''))])"

definition data_body :: "jval option \<Rightarrow> jval" where
  "data_body v = JObj (obj_lit [(''success'', Some (JBool True)), (''data'', v)])"

text \<open>
  The predicate of every lookup: \<^verbatim>\<open>s => String(s.id) === String(id)\<close>. The requested
  identifier is a string; the stored one is converted first, and that can throw.
\<close>

definition id_matches :: "string \<Rightarrow> obj \<Rightarrow> js_error + bool" where
  "id_matches i s =
     (case js_String (obj_get s ''id'') of
        Inl err \<Rightarrow> Inl err
      | Inr t \<Rightarrow> (case js_String (Some (JStr i)) of Inl err \<Rightarrow> Inl err | Inr u \<Rightarrow> Inr (t = u)))"

text \<open>Sequencing inside a \<^verbatim>\<open>try\<close> block: an exception skips what follows, the state stays.\<close>

definition then_do ::
  "(js_error + 'a) \<times> 's \<Rightarrow> ('a \<Rightarrow> 's \<Rightarrow> (js_error + 'b) \<times> 's) \<Rightarrow> (js_error + 'b) \<times> 's" where
  "then_do r f = (case r of (Inl err, s) \<Rightarrow> (Inl err, s) | (Inr a, s) \<Rightarrow> f a s)"

text \<open>\<^verbatim>\<open>xs[i]\<close> for reading: \<^verbatim>\<open>undefined\<close> outside the array.\<close>

definition array_get :: "'a list \<Rightarrow> int \<Rightarrow> 'a option" where
  "array_get xs i = (if 0 \<le> i \<and> nat i < length xs then Some (xs ! nat i) else None)"

section \<open>The handlers\<close>

text \<open>
  The sources hold two variants of \<^verbatim>\<open>server.js\<close>. Where their handlers differ, the first
  variant is \<open>_v1\<close> and the second is \<open>_v2\<close>; the \<open>_try\<close> functions are the \<^verbatim>\<open>try\<close> blocks.
\<close>

subsection \<open>GET /api/students\<close>

definition get_students_try :: "env \<Rightarrow> state \<Rightarrow> (js_error + unit) \<times> state" where
  "get_students_try e s =
     then_do (on_db (db_read e) s) (\<lambda>u s1.
       let ss = (case students (store s1) of None \<Rightarrow> [] | Some xs \<Rightarrow> xs)
       in res_json 200
            (JObj (obj_lit [(''success'', Some (JBool True)),
                            (''count'', Some (JNum (num_of_length (length ss)))),
                            (''data'', Some (JArr (map JObj ss)))])) s1)"

definition get_students :: "env \<Rightarrow> datastore \<Rightarrow> (js_error + unit) \<times> state" where
  "get_students e d = catch_500 ''Error retrieving students'' (get_students_try e (start d))"

subsection \<open>GET /api/students/:id\<close>

definition get_student_by_id_try_v1 :: "env \<Rightarrow> string \<Rightarrow> state \<Rightarrow> (js_error + unit) \<times> state" where
  "get_student_by_id_try_v1 e i s =
     then_do (on_db (db_read e) s) (\<lambda>u s1.
       case students (store s1) of
         None \<Rightarrow> (Inl (cannot_read ''find''), s1)
       | Some xs \<Rightarrow>
           then_do (js_find (id_matches i) xs, s1) (\<lambda>found s1. case found of
              None \<Rightarrow> res_json 404 not_found_body s1
            | Some student \<Rightarrow>
                then_do (res_json 200 (data_body (Some (JObj student))) s1) (\<lambda>u s2.
                  (Inl (not_defined ''item''), s2))))"

definition get_student_by_id_v1 :: "env \<Rightarrow> string \<Rightarrow> datastore \<Rightarrow> (js_error + unit) \<times> state" where
  "get_student_by_id_v1 e i d =
     catch_500 ''Error retrieving student'' (get_student_by_id_try_v1 e i (start d))"

definition get_student_by_id_try_v2 :: "env \<Rightarrow> string \<Rightarrow> state \<Rightarrow> (js_error + unit) \<times> state" where
  "get_student_by_id_try_v2 e i s =
     then_do (on_db (db_read e) s) (\<lambda>u s1.
       case students (store s1) of
         None \<Rightarrow> (Inl (cannot_read ''find''), s1)
       | Some xs \<Rightarrow>
           then_do (js_find (id_matches i) xs, s1) (\<lambda>found s1. case found of
              None \<Rightarrow> res_json 404 not_found_body s1
            | Some student \<Rightarrow> res_json 200 (data_body (Some (JObj student))) s1))"

definition get_student_by_id_v2 :: "env \<Rightarrow> string \<Rightarrow> datastore \<Rightarrow> (js_error + unit) \<times> state" where
  "get_student_by_id_v2 e i d =
     catch_500 ''Error retrieving student'' (get_student_by_id_try_v2 e i (start d))"

subsection \<open>POST /api/students\<close>

text \<open>The mutator \<^verbatim>\<open>({ students }) => { students.push(newStudent); }\<close>.\<close>

definition push :: "obj \<Rightarrow> obj list option \<Rightarrow> js_error + unit \<times> obj list option" where
  "push x ss = (case ss of None \<Rightarrow> Inl (cannot_read ''push'') | Some xs \<Rightarrow> Inr ((), Some (xs @ [x])))"

definition new_student :: "env \<Rightarrow> jval option \<Rightarrow> jval option \<Rightarrow> obj" where
  "new_student e name email =
     obj_lit [(''id'', Some (JStr (uuid e))),
              (''name'', name),
              (''email'', email),
              (''createdAt'', Some (JStr (now e)))]"

definition post_student_try :: "env \<Rightarrow> obj \<Rightarrow> state \<Rightarrow> (js_error + unit) \<times> state" where
  "post_student_try e b s =
     (let name = obj_get b ''name''; email = obj_get b ''email''
      in if \<not> truthy name \<or> \<not> truthy email
         then res_json 400
                (JObj (obj_lit [(''success'', Some (JBool False)),
                                (''message'', Some (JStr ''Name and email are required''))])) s
         else let newStudent = new_student e name email
              in then_do (on_db (db_update e (push newStudent)) s) (\<lambda>u s1.
                   res_json 201 (data_body (Some (JObj newStudent))) s1))"

definition post_student_v1 :: "env \<Rightarrow> obj \<Rightarrow> datastore \<Rightarrow> (js_error + unit) \<times> state" where
  "post_student_v1 e b d = catch_500 ''Error creating students'' (post_student_try e b (start d))"

definition post_student_v2 :: "env \<Rightarrow> obj \<Rightarrow> datastore \<Rightarrow> (js_error + unit) \<times> state" where
  "post_student_v2 e b d = catch_500 ''Error creating student'' (post_student_try e b (start d))"

subsection \<open>PUT /api/students/:id\<close>

text \<open>
  The entity that replaces the one found:
  \<^verbatim>\<open>{ ...db.data.students[index], ...changes, updatedAt: new Date().toISOString() }\<close>.
  Spreading \<^verbatim>\<open>undefined\<close> copies nothing.
\<close>

definition merged :: "env \<Rightarrow> obj option \<Rightarrow> obj \<Rightarrow> obj" where
  "merged e old changes =
     fmupd ''updatedAt'' (JStr (now e))
       (spread (spread fmempty (case old of None \<Rightarrow> fmempty | Some ob \<Rightarrow> ob)) changes)"

text \<open>
  The index assigned to comes from \<open>findIndex\<close> on the same array and is not \<open>-1\<close>, so it
  lies inside the array (lemma \<open>findIndex_range\<close> below) and the assignment replaces an
  element.
\<close>

definition put_student_try :: "env \<Rightarrow> string \<Rightarrow> obj \<Rightarrow> state \<Rightarrow> (js_error + unit) \<times> state" where
  "put_student_try e i changes s =
     then_do (on_db (db_read e) s) (\<lambda>u s1.
       case students (store s1) of
         None \<Rightarrow> (Inl (cannot_read ''findIndex''), s1)
       | Some xs \<Rightarrow>
           then_do (findIndex (id_matches i) xs, s1) (\<lambda>index s1.
               if index = - 1 then res_json 404 not_found_body s1
               else let s2 = s1\<lparr>store := (store s1)\<lparr>students :=
                                 Some (xs[nat index := merged e (array_get xs index) changes])\<rparr>\<rparr>
                    in then_do (on_db (db_write e) s2) (\<lambda>u s3.
                         case students (store s3) of
                           None \<Rightarrow> (Inl (cannot_read (show_int index)), s3)
                         | Some ys \<Rightarrow>
                             res_json 200 (data_body (map_option JObj (array_get ys index))) s3)))"

definition put_student_v1 :: "env \<Rightarrow> string \<Rightarrow> obj \<Rightarrow> datastore \<Rightarrow> (js_error + unit) \<times> state" where
  "put_student_v1 e i changes d =
     catch_500 ''Error updating students'' (put_student_try e i changes (start d))"

definition put_student_v2 :: "env \<Rightarrow> string \<Rightarrow> obj \<Rightarrow> datastore \<Rightarrow> (js_error + unit) \<times> state" where
  "put_student_v2 e i changes d =
     catch_500 ''Error updating student'' (put_student_try e i changes (start d))"

subsection \<open>DELETE /api/students/:id\<close>

text \<open>The mutator \<^verbatim>\<open>({ students }) => { removedStudent = students.splice(index, 1)[0]; }\<close>.\<close>

definition splice_out :: "int \<Rightarrow> obj list option \<Rightarrow> js_error + obj option \<times> obj list option" where
  "splice_out index ss =
     (case ss of
        None \<Rightarrow> Inl (cannot_read ''splice'')
      | Some xs \<Rightarrow> (case splice index 1 xs of (removed, rest) \<Rightarrow> Inr (first_elem removed, Some rest)))"

definition delete_student_try_v1 :: "env \<Rightarrow> string \<Rightarrow> state \<Rightarrow> (js_error + unit) \<times> state" where
  "delete_student_try_v1 e i s =
     then_do (on_db (db_read e) s) (\<lambda>u s1.
       case students (store s1) of
         None \<Rightarrow> (Inl (cannot_read ''findIndex''), s1)
       | Some xs \<Rightarrow>
           then_do (findIndex (id_matches i) xs, s1) (\<lambda>index s1.
               if index = - 1 then res_json 404 not_found_body s1
               else then_do (on_db (db_update e (splice_out index)) s1) (\<lambda>removedStudent s2.
                      (Inl (not_defined ''deletedItem''), s2))))"

definition delete_student_v1 :: "env \<Rightarrow> string \<Rightarrow> datastore \<Rightarrow> (js_error + unit) \<times> state" where
  "delete_student_v1 e i d =
     catch_500 ''Error deleting resource'' (delete_student_try_v1 e i (start d))"

definition delete_student_try_v2 :: "env \<Rightarrow> string \<Rightarrow> state \<Rightarrow> (js_error + unit) \<times> state" where
  "delete_student_try_v2 e i s =
     then_do (on_db (db_read e) s) (\<lambda>u s1.
       case students (store s1) of
         None \<Rightarrow> (Inl (cannot_read ''findIndex''), s1)
       | Some xs \<Rightarrow>
           then_do (findIndex (id_matches i) xs, s1) (\<lambda>index s1.
               if index = - 1 then res_json 404 not_found_body s1
               else then_do (on_db (db_update e (splice_out index)) s1) (\<lambda>removedStudent s2.
                      res_json 200 (data_body (map_option JObj removedStudent)) s2)))"

definition delete_student_v2 :: "env \<Rightarrow> string \<Rightarrow> datastore \<Rightarrow> (js_error + unit) \<times> state" where
  "delete_student_v2 e i d =
     catch_500 ''Error deleting student'' (delete_student_try_v2 e i (start d))"

section \<open>What the client observes\<close>

text \<open>The status code of the response that reached the client.\<close>

definition status_of :: "(js_error + unit) \<times> state \<Rightarrow> nat option" where
  "status_of r = map_option status (res (snd r))"

section \<open>The format of a timestamp\<close>

text \<open>
  The format in which \<^verbatim>\<open>Date.prototype.toISOString\<close> writes a time of the years 0000 to
  9999, the simplified ISO-8601 format \<^verbatim>\<open>YYYY-MM-DDTHH:mm:ss.sssZ\<close>.
\<close>

definition is_digit :: "char \<Rightarrow> bool" where
  "is_digit ch = (ch \<in> set ''0123456789'')"

definition iso8601 :: "string \<Rightarrow> bool" where
  "iso8601 s =
     (length s = 24
      \<and> list_all (\<lambda>p. is_digit (s ! p)) [0, 1, 2, 3, 5, 6, 8, 9, 11, 12, 14, 15, 17, 18, 20, 21, 22]
      \<and> s ! 4 = CHR ''-'' \<and> s ! 7 = CHR ''-'' \<and> s ! 10 = CHR ''T'' \<and> s ! 13 = CHR '':''
      \<and> s ! 16 = CHR '':'' \<and> s ! 19 = CHR ''.'' \<and> s ! 23 = CHR ''Z'')"

section \<open>Example requests\<close>

text \<open>Concrete inputs at which the theorems below are evaluated.\<close>

definition env0 :: env where
  "env0 = \<lparr>uuid = ''u-42'', now = ''2025-06-01T12:00:00.000Z'', read_error = None, write_error = None\<rparr>"

definition ada :: obj where
  "ada = obj_lit [(''id'', Some (JStr ''a1'')), (''name'', Some (JStr ''Ada'')),
                  (''email'', Some (JStr ''ada@x.com'')),
                  (''createdAt'', Some (JStr ''2025-01-01T00:00:00.000Z''))]"

text \<open>A student whose id is the number 7.\<close>

definition bob :: obj where
  "bob = obj_lit [(''id'', Some (JNum (Num ''7''))), (''name'', Some (JStr ''Bob'')),
                  (''email'', Some (JStr ''bob@x.com''))]"

text \<open>
  A student whose id is the object \<^verbatim>\<open>{toString: 1}\<close>, as an update with the payload
  \<^verbatim>\<open>{"id": {"toString": 1}}\<close> leaves it in the collection.
\<close>

definition tos :: obj where
  "tos = obj_lit [(''id'', Some (JObj (obj_lit [(''toString'', Some (JNum (Num ''1'')))]))),
                  (''name'', Some (JStr ''Tos'')), (''email'', Some (JStr ''tos@x.com''))]"

definition db0 :: datastore where
  "db0 = \<lparr>students = Some [ada, bob], disk = Some [ada, bob], ops = []\<rparr>"

definition db_tos :: datastore where
  "db_tos = \<lparr>students = Some [tos, ada], disk = Some [tos, ada], ops = []\<rparr>"

definition db_nokey :: datastore where
  "db_nokey = \<lparr>students = None, disk = None, ops = []\<rparr>"

definition b_noemail :: obj where
  "b_noemail = obj_lit [(''name'', Some (JStr ''Ada''))]"


definition c_id :: obj where
  "c_id = obj_lit [(''id'', Some (JStr ''zzz''))]"

definition c_email :: obj where
  "c_email = obj_lit [(''email'', Some (JStr ''new@x.com''))]"

definition c_updatedAt :: obj where
  "c_updatedAt = obj_lit [(''updatedAt'', Some (JStr ''1999-01-01T00:00:00.000Z''))]"

section \<open>The searches\<close>

lemma js_find_none: "\<forall>x\<in>set xs. p x = Inr False \<Longrightarrow> js_find p xs = Inr None"
  by (induction xs) simp_all

lemma js_find_found:
  "k < length xs \<Longrightarrow> p (xs ! k) = Inr True \<Longrightarrow> \<forall>j<k. p (xs ! j) = Inr False
     \<Longrightarrow> js_find p xs = Inr (Some (xs ! k))"
proof (induction xs arbitrary: k)
  case Nil
  then show ?case by simp
next
  case (Cons x xs)
  show ?case
  proof (cases k)
    case 0
    with Cons.prems show ?thesis by simp
  next
    case (Suc n)
    from Cons.prems Suc have "p x = Inr False" by auto
    moreover from Cons.prems Suc have "js_find p xs = Inr (Some (xs ! n))"
      by (intro Cons.IH) auto
    ultimately show ?thesis using Suc by simp
  qed
qed

lemma js_find_throws:
  "k < length xs \<Longrightarrow> p (xs ! k) = Inl err \<Longrightarrow> \<forall>j<k. p (xs ! j) = Inr False
     \<Longrightarrow> js_find p xs = Inl err"
proof (induction xs arbitrary: k)
  case Nil
  then show ?case by simp
next
  case (Cons x xs)
  show ?case
  proof (cases k)
    case 0
    with Cons.prems show ?thesis by simp
  next
    case (Suc n)
    from Cons.prems Suc have "p x = Inr False" by auto
    moreover from Cons.prems Suc have "js_find p xs = Inl err"
      by (intro Cons.IH [of n]) auto
    ultimately show ?thesis by simp
  qed
qed

lemma findIndex_from_none:
  "\<forall>x\<in>set xs. p x = Inr False \<Longrightarrow> findIndex_from p xs n = Inr (- 1)"
  by (induction xs arbitrary: n) simp_all

lemma findIndex_from_found:
  "k < length xs \<Longrightarrow> p (xs ! k) = Inr True \<Longrightarrow> \<forall>j<k. p (xs ! j) = Inr False
     \<Longrightarrow> findIndex_from p xs n = Inr (n + int k)"
proof (induction xs arbitrary: k n)
  case Nil
  then show ?case by simp
next
  case (Cons x xs)
  show ?case
  proof (cases k)
    case 0
    with Cons.prems show ?thesis by simp
  next
    case (Suc m)
    from Cons.prems Suc have "p x = Inr False" by auto
    moreover from Cons.prems Suc have "findIndex_from p xs (n + 1) = Inr (n + 1 + int m)"
      by (intro Cons.IH) auto
    ultimately show ?thesis using Suc by simp
  qed
qed

lemma findIndex_from_throws:
  "k < length xs \<Longrightarrow> p (xs ! k) = Inl err \<Longrightarrow> \<forall>j<k. p (xs ! j) = Inr False
     \<Longrightarrow> findIndex_from p xs n = Inl err"
proof (induction xs arbitrary: k n)
  case Nil
  then show ?case by simp
next
  case (Cons x xs)
  show ?case
  proof (cases k)
    case 0
    with Cons.prems show ?thesis by simp
  next
    case (Suc m)
    from Cons.prems Suc have "p x = Inr False" by auto
    moreover from Cons.prems Suc have "findIndex_from p xs (n + 1) = Inl err"
      by (intro Cons.IH [of m]) auto
    ultimately show ?thesis by simp
  qed
qed

lemma findIndex_none: "\<forall>x\<in>set xs. p x = Inr False \<Longrightarrow> findIndex p xs = Inr (- 1)"
  by (simp add: findIndex_def findIndex_from_none)

lemma findIndex_found:
  "k < length xs \<Longrightarrow> p (xs ! k) = Inr True \<Longrightarrow> \<forall>j<k. p (xs ! j) = Inr False
     \<Longrightarrow> findIndex p xs = Inr (int k)"
  using findIndex_from_found [of k xs p 0] by (simp add: findIndex_def)

lemma findIndex_throws:
  "k < length xs \<Longrightarrow> p (xs ! k) = Inl err \<Longrightarrow> \<forall>j<k. p (xs ! j) = Inr False
     \<Longrightarrow> findIndex p xs = Inl err"
  by (simp add: findIndex_def findIndex_from_throws)

lemma splice_one:
  "k < length xs \<Longrightarrow>
     splice (int k) (Suc 0) xs = ([xs ! k], take k xs @ drop (Suc k) xs)"
  by (auto simp: splice_def Let_def min_def take_Suc_conv_app_nth hd_drop_conv_nth Cons_nth_drop_Suc[symmetric])

lemma findIndex_from_range:
  "findIndex_from p xs n = Inr r \<Longrightarrow> r \<noteq> - 1 \<Longrightarrow> 0 \<le> n \<Longrightarrow>
     n \<le> r \<and> nat (r - n) < length xs \<and> p (xs ! nat (r - n)) = Inr True
     \<and> (\<forall>j<nat (r - n). p (xs ! j) = Inr False)"
proof (induction xs arbitrary: n)
  case Nil
  then show ?case by simp
next
  case (Cons x xs)
  show ?case
  proof (cases "p x")
    case (Inl err)
    with Cons.prems show ?thesis by simp
  next
    case (Inr b)
    show ?thesis
    proof (cases b)
      case True
      with Inr Cons.prems show ?thesis by simp
    next
      case False
      with Inr Cons.prems have f: "findIndex_from p xs (n + 1) = Inr r" by simp
      from Cons.prems have n1: "0 \<le> n + 1" by simp
      note ih = Cons.IH [OF f Cons.prems(2) n1]
      from ih have s: "nat (r - n) = Suc (nat (r - (n + 1)))" by linarith
      show ?thesis using ih Inr False
        by (simp add: s nth_Cons less_Suc_eq_0_disj split: nat.splits)
    qed
  qed
qed

lemma findIndex_range:
  "findIndex p xs = Inr r \<Longrightarrow> r \<noteq> - 1 \<Longrightarrow>
     0 \<le> r \<and> nat r < length xs \<and> p (xs ! nat r) = Inr True \<and> (\<forall>j<nat r. p (xs ! j) = Inr False)"
  using findIndex_from_range [of p xs 0 r] by (simp add: findIndex_def)

text \<open>Every search ends in one of three ways.\<close>

lemma search_cases:
  "(\<forall>x\<in>set xs. p x = Inr False)
   \<or> (\<exists>k<length xs. p (xs ! k) = Inr True \<and> (\<forall>j<k. p (xs ! j) = Inr False))
   \<or> (\<exists>k<length xs. \<exists>err. p (xs ! k) = Inl err \<and> (\<forall>j<k. p (xs ! j) = Inr False))"
proof (induction xs)
  case Nil
  then show ?case by simp
next
  case (Cons x xs)
  show ?case
  proof (cases "p x")
    case (Inl err)
    then have "\<exists>k<length (x # xs). \<exists>err. p ((x # xs) ! k) = Inl err \<and> (\<forall>j<k. p ((x # xs) ! j) = Inr False)"
      by (intro exI [of _ 0]) simp
    then show ?thesis by blast
  next
    case (Inr b)
    show ?thesis
    proof (cases b)
      case True
      with Inr have "\<exists>k<length (x # xs). p ((x # xs) ! k) = Inr True \<and> (\<forall>j<k. p ((x # xs) ! j) = Inr False)"
        by (intro exI [of _ 0]) simp
      then show ?thesis by blast
    next
      case False
      with Inr have px: "p x = Inr False" by simp
      from Cons.IH consider
          (none) "\<forall>y\<in>set xs. p y = Inr False"
        | (found) k where "k < length xs" "p (xs ! k) = Inr True" "\<forall>j<k. p (xs ! j) = Inr False"
        | (throws) k err where "k < length xs" "p (xs ! k) = Inl err" "\<forall>j<k. p (xs ! j) = Inr False"
        by blast
      then show ?thesis
      proof cases
        case none
        with px show ?thesis by simp
      next
        case found
        with px have "Suc k < length (x # xs) \<and> p ((x # xs) ! Suc k) = Inr True
            \<and> (\<forall>j<Suc k. p ((x # xs) ! j) = Inr False)"
          by (auto simp: nth_Cons split: nat.splits)
        then show ?thesis by blast
      next
        case throws
        with px have "Suc k < length (x # xs) \<and> p ((x # xs) ! Suc k) = Inl err
            \<and> (\<forall>j<Suc k. p ((x # xs) ! j) = Inr False)"
          by (auto simp: nth_Cons split: nat.splits)
        then show ?thesis by blast
      qed
    qed
  qed
qed

section \<open>The predicate of the searches\<close>

lemma id_matches_string:
  "js_String (fmlookup s ''id'') = Inr t \<Longrightarrow> id_matches i s = Inr (t = i)"
  by (simp add: id_matches_def obj_get_def js_String_def)

lemma id_matches_throws:
  "js_String (fmlookup s ''id'') = Inl err \<Longrightarrow> id_matches i s = Inl err"
  by (simp add: id_matches_def obj_get_def)

lemma matches_at:
  assumes "js_String (fmlookup (xs ! k) ''id'') = Inr i"
  shows "id_matches i (xs ! k) = Inr True"
  using id_matches_string [OF assms, of i] by simp

lemma no_match_before:
  assumes "\<forall>j<k. \<exists>t. js_String (fmlookup (xs ! j) ''id'') = Inr t \<and> t \<noteq> i"
  shows "\<forall>j<k. id_matches i (xs ! j) = Inr False"
proof (intro allI impI)
  fix j assume "j < k"
  with assms obtain t where "js_String (fmlookup (xs ! j) ''id'') = Inr t" "t \<noteq> i" by blast
  then show "id_matches i (xs ! j) = Inr False" by (simp add: id_matches_string)
qed

lemma no_match_at_all:
  assumes "\<forall>s\<in>set xs. \<exists>t. js_String (fmlookup s ''id'') = Inr t \<and> t \<noteq> i"
  shows "\<forall>s\<in>set xs. id_matches i s = Inr False"
proof
  fix s assume "s \<in> set xs"
  with assms obtain t where "js_String (fmlookup s ''id'') = Inr t" "t \<noteq> i" by blast
  then show "id_matches i s = Inr False" by (simp add: id_matches_string)
qed

lemma id_matches_cases:
  "id_matches i s = Inr True \<longleftrightarrow> js_String (fmlookup s ''id'') = Inr i"
  "id_matches i s = Inr False \<longleftrightarrow> (\<exists>t. js_String (fmlookup s ''id'') = Inr t \<and> t \<noteq> i)"
  "id_matches i s = Inl err \<longleftrightarrow> js_String (fmlookup s ''id'') = Inl err"
  by (auto simp: id_matches_def obj_get_def js_String_def split: sum.splits option.splits)

section \<open>The bodies sent\<close>

lemma data_body_Some:
  "to_json (data_body (Some (JObj s))) =
     JObj (fmap_of_list [(''success'', JBool True), (''data'', JObj (fmmap to_json s))])"
  unfolding data_body_def obj_lit_def
  by (simp, intro fmap_ext, auto simp: fmlookup_of_list)

lemma not_found_body_eq:
  "to_json not_found_body =
     JObj (fmap_of_list [(''success'', JBool False), (''message'', JStr ''Student not found'')])"
  unfolding not_found_body_def obj_lit_def
  by (simp, intro fmap_ext, auto simp: fmlookup_of_list)

lemma error_body_eq:
  "fmmap to_json (obj_lit [(''success'', Some (JBool False)), (''message'', Some (JStr msg)),
                           (''error'', Some (JStr t))])
     = fmap_of_list [(''success'', JBool False), (''message'', JStr msg), (''error'', JStr t)]"
  unfolding obj_lit_def
  by (intro fmap_ext, auto simp: fmlookup_of_list)

text \<open>The length of an array, written as JSON, is that number.\<close>

lemma show_nat_digits: "set (show_nat n) \<subseteq> set ''0123456789''"
proof (induction n rule: show_nat.induct)
  case (1 n)
  have d: "digit m \<in> set ''0123456789''" for m
  proof -
    have "m mod 10 < length ''0123456789''" by simp
    then show ?thesis unfolding digit_def by (rule nth_mem)
  qed
  show ?case
  proof (cases "n < 10")
    case True
    then show ?thesis using d [of n] by (subst show_nat.simps) simp
  next
    case False
    with "1" d [of "n mod 10"] show ?thesis by (subst show_nat.simps) simp
  qed
qed

lemma to_json_length: "to_json (JNum (num_of_length n)) = JNum (num_of_length n)"
proof -
  have "CHR ''I'' \<notin> set (show_nat n)" "CHR ''-'' \<notin> set (show_nat n)"
    "CHR ''N'' \<notin> set (show_nat n)"
    using show_nat_digits [of n] by auto
  then have "show_nat n \<noteq> ''Infinity''" "show_nat n \<noteq> ''-Infinity''" "show_nat n \<noteq> ''NaN''"
    by auto
  then show ?thesis by (simp add: num_of_length_def)
qed

section \<open>What each handler does on each path\<close>

lemmas step_defs = then_do_def on_db_def res_json_def catch_500_def start_def
  db_read_def db_write_def db_update_def

lemma catch_500_ok: "catch_500 msg (Inr u, s) = (Inr u, s)"
  by (simp add: catch_500_def)

lemma catch_500_fresh:
  "res s = None \<Longrightarrow> catch_500 msg (Inl err, s) =
     (Inr (), s\<lparr>res := Some \<lparr>status = 500,
        body = JObj (fmap_of_list [(''success'', JBool False), (''message'', JStr msg),
                                   (''error'', JStr (error_message err))])\<rparr>\<rparr>)"
  by (simp add: catch_500_def res_json_def error_body_eq)

lemma catch_500_sent:
  "res s = Some r \<Longrightarrow> catch_500 msg (Inl err, s) = (Inl HeadersSent, s)"
  by (simp add: catch_500_def res_json_def)

lemma array_get_in: "k < length xs \<Longrightarrow> array_get xs (int k) = Some (xs ! k)"
  by (simp add: array_get_def)

subsection \<open>Update\<close>

lemma put_student_try_found:
  assumes "read_error e = None" "write_error e = None" "disk d = Some xs"
    and "findIndex (id_matches i) xs = Inr (int k)" "k < length xs"
  shows "put_student_try e i c (start d) =
    (Inr (),
     \<lparr>store = \<lparr>students = Some (xs[k := merged e (Some (xs ! k)) c]),
                disk = Some (map (fmmap to_json) (xs[k := merged e (Some (xs ! k)) c])),
                ops = ops d @ [Read, Write]\<rparr>,
      res = Some \<lparr>status = 200, body = to_json (data_body (Some (JObj (merged e (Some (xs ! k)) c))))\<rparr>\<rparr>)"
  using assms
  by (simp add: put_student_try_def step_defs Let_def array_get_in)

lemma put_student_try_absent:
  assumes "read_error e = None" "disk d = Some xs"
    and "findIndex (id_matches i) xs = Inr (- 1)"
  shows "put_student_try e i c (start d) =
    (Inr (), \<lparr>store = \<lparr>students = Some xs, disk = Some xs, ops = ops d @ [Read]\<rparr>,
              res = Some \<lparr>status = 404, body = to_json not_found_body\<rparr>\<rparr>)"
  using assms by (simp add: put_student_try_def step_defs Let_def)

lemma put_student_try_throws:
  assumes "read_error e = None" "disk d = Some xs"
    and "findIndex (id_matches i) xs = Inl err"
  shows "put_student_try e i c (start d) =
    (Inl err, \<lparr>store = \<lparr>students = Some xs, disk = Some xs, ops = ops d @ [Read]\<rparr>, res = None\<rparr>)"
  using assms by (simp add: put_student_try_def step_defs Let_def)

lemma merged_lookup:
  "fmlookup (merged e (Some old) c) k =
     (if k = ''updatedAt'' then Some (JStr (now e))
      else case fmlookup c k of Some v \<Rightarrow> Some v | None \<Rightarrow> fmlookup old k)"
  by (auto simp: merged_def spread_def fmlookup_dom_iff split: option.splits)

lemma email_only:
  assumes "fmdom c = {|''email''|}"
  shows "fmlookup c ''name'' = None \<and> fmlookup c ''id'' = None \<and> fmlookup c ''email'' \<noteq> None"
proof -
  from assms have "''name'' |\<notin>| fmdom c" "''id'' |\<notin>| fmdom c" "''email'' |\<in>| fmdom c"
    by simp_all
  then show ?thesis
    by (metis fmdom_notD fmlookup_dom_iff option.distinct(1))
qed

subsection \<open>Delete\<close>

lemma delete_student_try_v1_found:
  assumes "read_error e = None" "write_error e = None" "disk d = Some xs"
    and "findIndex (id_matches i) xs = Inr (int k)" "k < length xs"
  shows "delete_student_try_v1 e i (start d) =
    (Inl (not_defined ''deletedItem''),
     \<lparr>store = \<lparr>students = Some (take k xs @ drop (Suc k) xs),
                disk = Some (map (fmmap to_json) (take k xs @ drop (Suc k) xs)),
                ops = ops d @ [Read, Write]\<rparr>,
      res = None\<rparr>)"
  using assms
  by (simp add: delete_student_try_v1_def step_defs Let_def splice_out_def splice_one first_elem_def)

lemma delete_student_try_v2_found:
  assumes "read_error e = None" "write_error e = None" "disk d = Some xs"
    and "findIndex (id_matches i) xs = Inr (int k)" "k < length xs"
  shows "delete_student_try_v2 e i (start d) =
    (Inr (),
     \<lparr>store = \<lparr>students = Some (take k xs @ drop (Suc k) xs),
                disk = Some (map (fmmap to_json) (take k xs @ drop (Suc k) xs)),
                ops = ops d @ [Read, Write]\<rparr>,
      res = Some \<lparr>status = 200, body = to_json (data_body (Some (JObj (xs ! k))))\<rparr>\<rparr>)"
  using assms
  by (simp add: delete_student_try_v2_def step_defs Let_def splice_out_def splice_one first_elem_def)

lemma delete_student_try_absent:
  assumes "read_error e = None" "disk d = Some xs"
    and "findIndex (id_matches i) xs = Inr (- 1)"
  shows "delete_student_try_v1 e i (start d) =
    (Inr (), \<lparr>store = \<lparr>students = Some xs, disk = Some xs, ops = ops d @ [Read]\<rparr>,
              res = Some \<lparr>status = 404, body = to_json not_found_body\<rparr>\<rparr>)"
    and "delete_student_try_v2 e i (start d) =
    (Inr (), \<lparr>store = \<lparr>students = Some xs, disk = Some xs, ops = ops d @ [Read]\<rparr>,
              res = Some \<lparr>status = 404, body = to_json not_found_body\<rparr>\<rparr>)"
  using assms
  by (simp_all add: delete_student_try_v1_def delete_student_try_v2_def step_defs Let_def)

lemma delete_student_try_throws:
  assumes "read_error e = None" "disk d = Some xs"
    and "findIndex (id_matches i) xs = Inl err"
  shows "delete_student_try_v1 e i (start d) =
    (Inl err, \<lparr>store = \<lparr>students = Some xs, disk = Some xs, ops = ops d @ [Read]\<rparr>, res = None\<rparr>)"
    and "delete_student_try_v2 e i (start d) =
    (Inl err, \<lparr>store = \<lparr>students = Some xs, disk = Some xs, ops = ops d @ [Read]\<rparr>, res = None\<rparr>)"
  using assms
  by (simp_all add: delete_student_try_v1_def delete_student_try_v2_def step_defs Let_def)

subsection \<open>Get by id\<close>

lemma get_student_by_id_try_found:
  assumes "read_error e = None" "disk d = Some xs"
    and "js_find (id_matches i) xs = Inr (Some s)"
  shows "get_student_by_id_try_v1 e i (start d) =
    (Inl (not_defined ''item''),
     \<lparr>store = \<lparr>students = Some xs, disk = Some xs, ops = ops d @ [Read]\<rparr>,
      res = Some \<lparr>status = 200, body = to_json (data_body (Some (JObj s)))\<rparr>\<rparr>)"
    and "get_student_by_id_try_v2 e i (start d) =
    (Inr (),
     \<lparr>store = \<lparr>students = Some xs, disk = Some xs, ops = ops d @ [Read]\<rparr>,
      res = Some \<lparr>status = 200, body = to_json (data_body (Some (JObj s)))\<rparr>\<rparr>)"
  using assms
  by (simp_all add: get_student_by_id_try_v1_def get_student_by_id_try_v2_def step_defs)

lemma get_student_by_id_try_absent:
  assumes "read_error e = None" "disk d = Some xs"
    and "js_find (id_matches i) xs = Inr None"
  shows "get_student_by_id_try_v1 e i (start d) =
    (Inr (), \<lparr>store = \<lparr>students = Some xs, disk = Some xs, ops = ops d @ [Read]\<rparr>,
              res = Some \<lparr>status = 404, body = to_json not_found_body\<rparr>\<rparr>)"
    and "get_student_by_id_try_v2 e i (start d) =
    (Inr (), \<lparr>store = \<lparr>students = Some xs, disk = Some xs, ops = ops d @ [Read]\<rparr>,
              res = Some \<lparr>status = 404, body = to_json not_found_body\<rparr>\<rparr>)"
  using assms
  by (simp_all add: get_student_by_id_try_v1_def get_student_by_id_try_v2_def step_defs)

lemma get_student_by_id_try_throws:
  assumes "read_error e = None" "disk d = Some xs"
    and "js_find (id_matches i) xs = Inl err"
  shows "get_student_by_id_try_v1 e i (start d) =
    (Inl err, \<lparr>store = \<lparr>students = Some xs, disk = Some xs, ops = ops d @ [Read]\<rparr>, res = None\<rparr>)"
    and "get_student_by_id_try_v2 e i (start d) =
    (Inl err, \<lparr>store = \<lparr>students = Some xs, disk = Some xs, ops = ops d @ [Read]\<rparr>, res = None\<rparr>)"
  using assms
  by (simp_all add: get_student_by_id_try_v1_def get_student_by_id_try_v2_def step_defs)

subsection \<open>No students key\<close>

lemma no_students_key:
  assumes "read_error e = None" "disk d = None"
  shows "get_student_by_id_try_v1 e i (start d) =
           (Inl (cannot_read ''find''), \<lparr>store = \<lparr>students = None, disk = None, ops = ops d @ [Read]\<rparr>, res = None\<rparr>)"
    and "get_student_by_id_try_v2 e i (start d) =
           (Inl (cannot_read ''find''), \<lparr>store = \<lparr>students = None, disk = None, ops = ops d @ [Read]\<rparr>, res = None\<rparr>)"
    and "put_student_try e i c (start d) =
           (Inl (cannot_read ''findIndex''), \<lparr>store = \<lparr>students = None, disk = None, ops = ops d @ [Read]\<rparr>, res = None\<rparr>)"
    and "delete_student_try_v1 e i (start d) =
           (Inl (cannot_read ''findIndex''), \<lparr>store = \<lparr>students = None, disk = None, ops = ops d @ [Read]\<rparr>, res = None\<rparr>)"
    and "delete_student_try_v2 e i (start d) =
           (Inl (cannot_read ''findIndex''), \<lparr>store = \<lparr>students = None, disk = None, ops = ops d @ [Read]\<rparr>, res = None\<rparr>)"
  using assms
  by (simp_all add: get_student_by_id_try_v1_def get_student_by_id_try_v2_def put_student_try_def
      delete_student_try_v1_def delete_student_try_v2_def step_defs)

subsection \<open>Create\<close>



subsection \<open>Whole handlers\<close>

lemma put_student_found:
  assumes "read_error e = None" "write_error e = None" "disk d = Some xs"
    and "k < length xs"
    and "js_String (fmlookup (xs ! k) ''id'') = Inr i"
    and "\<forall>j<k. \<exists>t. js_String (fmlookup (xs ! j) ''id'') = Inr t \<and> t \<noteq> i"
  shows "put_student_v1 e i c d =
           (Inr (),
            \<lparr>store = \<lparr>students = Some (xs[k := merged e (Some (xs ! k)) c]),
                       disk = Some (map (fmmap to_json) (xs[k := merged e (Some (xs ! k)) c])),
                       ops = ops d @ [Read, Write]\<rparr>,
             res = Some \<lparr>status = 200,
                    body = JObj (fmap_of_list [(''success'', JBool True),
                                  (''data'', JObj (fmmap to_json (merged e (Some (xs ! k)) c)))])\<rparr>\<rparr>)"
    and "put_student_v2 e i c d =
           (Inr (),
            \<lparr>store = \<lparr>students = Some (xs[k := merged e (Some (xs ! k)) c]),
                       disk = Some (map (fmmap to_json) (xs[k := merged e (Some (xs ! k)) c])),
                       ops = ops d @ [Read, Write]\<rparr>,
             res = Some \<lparr>status = 200,
                    body = JObj (fmap_of_list [(''success'', JBool True),
                                  (''data'', JObj (fmmap to_json (merged e (Some (xs ! k)) c)))])\<rparr>\<rparr>)"
proof -
  have f: "findIndex (id_matches i) xs = Inr (int k)"
    by (rule findIndex_found [OF assms(4) matches_at [OF assms(5)] no_match_before [OF assms(6)]])
  note t = put_student_try_found [OF assms(1-3) f assms(4), of c]
  show "put_student_v1 e i c d =
           (Inr (),
            \<lparr>store = \<lparr>students = Some (xs[k := merged e (Some (xs ! k)) c]),
                       disk = Some (map (fmmap to_json) (xs[k := merged e (Some (xs ! k)) c])),
                       ops = ops d @ [Read, Write]\<rparr>,
             res = Some \<lparr>status = 200,
                    body = JObj (fmap_of_list [(''success'', JBool True),
                                  (''data'', JObj (fmmap to_json (merged e (Some (xs ! k)) c)))])\<rparr>\<rparr>)"
    unfolding put_student_v1_def t data_body_Some by (rule catch_500_ok)
  show "put_student_v2 e i c d =
           (Inr (),
            \<lparr>store = \<lparr>students = Some (xs[k := merged e (Some (xs ! k)) c]),
                       disk = Some (map (fmmap to_json) (xs[k := merged e (Some (xs ! k)) c])),
                       ops = ops d @ [Read, Write]\<rparr>,
             res = Some \<lparr>status = 200,
                    body = JObj (fmap_of_list [(''success'', JBool True),
                                  (''data'', JObj (fmmap to_json (merged e (Some (xs ! k)) c)))])\<rparr>\<rparr>)"
    unfolding put_student_v2_def t data_body_Some by (rule catch_500_ok)
qed

lemma delete_student_found:
  assumes "read_error e = None" "write_error e = None" "disk d = Some xs"
    and "k < length xs"
    and "js_String (fmlookup (xs ! k) ''id'') = Inr i"
    and "\<forall>j<k. \<exists>t. js_String (fmlookup (xs ! j) ''id'') = Inr t \<and> t \<noteq> i"
  shows "delete_student_v1 e i d =
           (Inr (),
            \<lparr>store = \<lparr>students = Some (take k xs @ drop (Suc k) xs),
                       disk = Some (map (fmmap to_json) (take k xs @ drop (Suc k) xs)),
                       ops = ops d @ [Read, Write]\<rparr>,
             res = Some \<lparr>status = 500,
                    body = JObj (fmap_of_list [(''success'', JBool False),
                                  (''message'', JStr ''Error deleting resource''),
                                  (''error'', JStr ''deletedItem is not defined'')])\<rparr>\<rparr>)"
    and "delete_student_v2 e i d =
           (Inr (),
            \<lparr>store = \<lparr>students = Some (take k xs @ drop (Suc k) xs),
                       disk = Some (map (fmmap to_json) (take k xs @ drop (Suc k) xs)),
                       ops = ops d @ [Read, Write]\<rparr>,
             res = Some \<lparr>status = 200,
                    body = JObj (fmap_of_list [(''success'', JBool True), (''data'', JObj (fmmap to_json (xs ! k)))])\<rparr>\<rparr>)"
proof -
  have f: "findIndex (id_matches i) xs = Inr (int k)"
    by (rule findIndex_found [OF assms(4) matches_at [OF assms(5)] no_match_before [OF assms(6)]])
  show "delete_student_v1 e i d =
           (Inr (),
            \<lparr>store = \<lparr>students = Some (take k xs @ drop (Suc k) xs),
                       disk = Some (map (fmmap to_json) (take k xs @ drop (Suc k) xs)),
                       ops = ops d @ [Read, Write]\<rparr>,
             res = Some \<lparr>status = 500,
                    body = JObj (fmap_of_list [(''success'', JBool False),
                                  (''message'', JStr ''Error deleting resource''),
                                  (''error'', JStr ''deletedItem is not defined'')])\<rparr>\<rparr>)"
    unfolding delete_student_v1_def delete_student_try_v1_found [OF assms(1-3) f assms(4)]
    by (simp add: catch_500_fresh not_defined_def)
  show "delete_student_v2 e i d =
           (Inr (),
            \<lparr>store = \<lparr>students = Some (take k xs @ drop (Suc k) xs),
                       disk = Some (map (fmmap to_json) (take k xs @ drop (Suc k) xs)),
                       ops = ops d @ [Read, Write]\<rparr>,
             res = Some \<lparr>status = 200,
                    body = JObj (fmap_of_list [(''success'', JBool True), (''data'', JObj (fmmap to_json (xs ! k)))])\<rparr>\<rparr>)"
    unfolding delete_student_v2_def delete_student_try_v2_found [OF assms(1-3) f assms(4)] data_body_Some
    by (rule catch_500_ok)
qed

lemma get_student_by_id_found:
  assumes "read_error e = None" "disk d = Some xs"
    and "k < length xs"
    and "js_String (fmlookup (xs ! k) ''id'') = Inr i"
    and "\<forall>j<k. \<exists>t. js_String (fmlookup (xs ! j) ''id'') = Inr t \<and> t \<noteq> i"
  shows "get_student_by_id_v2 e i d =
           (Inr (),
            \<lparr>store = \<lparr>students = Some xs, disk = Some xs, ops = ops d @ [Read]\<rparr>,
             res = Some \<lparr>status = 200,
                    body = JObj (fmap_of_list [(''success'', JBool True), (''data'', JObj (fmmap to_json (xs ! k)))])\<rparr>\<rparr>)"
    and "get_student_by_id_v1 e i d =
           (Inl HeadersSent,
            \<lparr>store = \<lparr>students = Some xs, disk = Some xs, ops = ops d @ [Read]\<rparr>,
             res = Some \<lparr>status = 200,
                    body = JObj (fmap_of_list [(''success'', JBool True), (''data'', JObj (fmmap to_json (xs ! k)))])\<rparr>\<rparr>)"
proof -
  have f: "js_find (id_matches i) xs = Inr (Some (xs ! k))"
    by (rule js_find_found [OF assms(3) matches_at [OF assms(4)] no_match_before [OF assms(5)]])
  note t = get_student_by_id_try_found [OF assms(1,2) f]
  show "get_student_by_id_v2 e i d =
           (Inr (),
            \<lparr>store = \<lparr>students = Some xs, disk = Some xs, ops = ops d @ [Read]\<rparr>,
             res = Some \<lparr>status = 200,
                    body = JObj (fmap_of_list [(''success'', JBool True), (''data'', JObj (fmmap to_json (xs ! k)))])\<rparr>\<rparr>)"
    unfolding get_student_by_id_v2_def t data_body_Some by (rule catch_500_ok)
  show "get_student_by_id_v1 e i d =
           (Inl HeadersSent,
            \<lparr>store = \<lparr>students = Some xs, disk = Some xs, ops = ops d @ [Read]\<rparr>,
             res = Some \<lparr>status = 200,
                    body = JObj (fmap_of_list [(''success'', JBool True), (''data'', JObj (fmmap to_json (xs ! k)))])\<rparr>\<rparr>)"
    unfolding get_student_by_id_v1_def t data_body_Some by (rule catch_500_sent) simp
qed

lemma get_student_by_id_absent:
  assumes "read_error e = None" "disk d = Some xs"
    and "\<forall>s\<in>set xs. \<exists>t. js_String (fmlookup s ''id'') = Inr t \<and> t \<noteq> i"
  shows "get_student_by_id_v2 e i d =
           (Inr (),
            \<lparr>store = \<lparr>students = Some xs, disk = Some xs, ops = ops d @ [Read]\<rparr>,
             res = Some \<lparr>status = 404,
                    body = JObj (fmap_of_list [(''success'', JBool False),
                                  (''message'', JStr ''Student not found'')])\<rparr>\<rparr>)"
    and "get_student_by_id_v1 e i d =
           (Inr (),
            \<lparr>store = \<lparr>students = Some xs, disk = Some xs, ops = ops d @ [Read]\<rparr>,
             res = Some \<lparr>status = 404,
                    body = JObj (fmap_of_list [(''success'', JBool False),
                                  (''message'', JStr ''Student not found'')])\<rparr>\<rparr>)"
proof -
  have f: "js_find (id_matches i) xs = Inr None"
    by (rule js_find_none [OF no_match_at_all [OF assms(3)]])
  note t = get_student_by_id_try_absent [OF assms(1,2) f]
  show "get_student_by_id_v2 e i d =
           (Inr (),
            \<lparr>store = \<lparr>students = Some xs, disk = Some xs, ops = ops d @ [Read]\<rparr>,
             res = Some \<lparr>status = 404,
                    body = JObj (fmap_of_list [(''success'', JBool False),
                                  (''message'', JStr ''Student not found'')])\<rparr>\<rparr>)"
    unfolding get_student_by_id_v2_def t not_found_body_eq by (rule catch_500_ok)
  show "get_student_by_id_v1 e i d =
           (Inr (),
            \<lparr>store = \<lparr>students = Some xs, disk = Some xs, ops = ops d @ [Read]\<rparr>,
             res = Some \<lparr>status = 404,
                    body = JObj (fmap_of_list [(''success'', JBool False),
                                  (''message'', JStr ''Student not found'')])\<rparr>\<rparr>)"
    unfolding get_student_by_id_v1_def t not_found_body_eq by (rule catch_500_ok)
qed

lemma get_student_by_id_throws:
  assumes "read_error e = None" "disk d = Some xs"
    and "k < length xs"
    and "js_String (fmlookup (xs ! k) ''id'') = Inl err"
    and "\<forall>j<k. \<exists>t. js_String (fmlookup (xs ! j) ''id'') = Inr t \<and> t \<noteq> i"
  shows "get_student_by_id_v2 e i d =
           (Inr (),
            \<lparr>store = \<lparr>students = Some xs, disk = Some xs, ops = ops d @ [Read]\<rparr>,
             res = Some \<lparr>status = 500,
                    body = JObj (fmap_of_list [(''success'', JBool False),
                                  (''message'', JStr ''Error retrieving student''),
                                  (''error'', JStr (error_message err))])\<rparr>\<rparr>)"
    and "get_student_by_id_v1 e i d =
           (Inr (),
            \<lparr>store = \<lparr>students = Some xs, disk = Some xs, ops = ops d @ [Read]\<rparr>,
             res = Some \<lparr>status = 500,
                    body = JObj (fmap_of_list [(''success'', JBool False),
                                  (''message'', JStr ''Error retrieving student''),
                                  (''error'', JStr (error_message err))])\<rparr>\<rparr>)"
proof -
  have f: "js_find (id_matches i) xs = Inl err"
    by (rule js_find_throws [OF assms(3) id_matches_throws [OF assms(4)] no_match_before [OF assms(5)]])
  note t = get_student_by_id_try_throws [OF assms(1,2) f]
  show "get_student_by_id_v2 e i d =
           (Inr (),
            \<lparr>store = \<lparr>students = Some xs, disk = Some xs, ops = ops d @ [Read]\<rparr>,
             res = Some \<lparr>status = 500,
                    body = JObj (fmap_of_list [(''success'', JBool False),
                                  (''message'', JStr ''Error retrieving student''),
                                  (''error'', JStr (error_message err))])\<rparr>\<rparr>)"
    unfolding get_student_by_id_v2_def t by (simp add: catch_500_fresh)
  show "get_student_by_id_v1 e i d =
           (Inr (),
            \<lparr>store = \<lparr>students = Some xs, disk = Some xs, ops = ops d @ [Read]\<rparr>,
             res = Some \<lparr>status = 500,
                    body = JObj (fmap_of_list [(''success'', JBool False),
                                  (''message'', JStr ''Error retrieving student''),
                                  (''error'', JStr (error_message err))])\<rparr>\<rparr>)"
    unfolding get_student_by_id_v1_def t by (simp add: catch_500_fresh)
qed

lemma absent_404:
  assumes "read_error e = None" "disk d = Some xs"
    and "\<forall>s\<in>set xs. \<exists>t. js_String (fmlookup s ''id'') = Inr t \<and> t \<noteq> i"
  shows "put_student_v1 e i c d =
           (Inr (), \<lparr>store = \<lparr>students = Some xs, disk = Some xs, ops = ops d @ [Read]\<rparr>,
                     res = Some \<lparr>status = 404,
                       body = JObj (fmap_of_list [(''success'', JBool False),
                                     (''message'', JStr ''Student not found'')])\<rparr>\<rparr>)"
    and "put_student_v2 e i c d =
           (Inr (), \<lparr>store = \<lparr>students = Some xs, disk = Some xs, ops = ops d @ [Read]\<rparr>,
                     res = Some \<lparr>status = 404,
                       body = JObj (fmap_of_list [(''success'', JBool False),
                                     (''message'', JStr ''Student not found'')])\<rparr>\<rparr>)"
    and "delete_student_v1 e i d =
           (Inr (), \<lparr>store = \<lparr>students = Some xs, disk = Some xs, ops = ops d @ [Read]\<rparr>,
                     res = Some \<lparr>status = 404,
                       body = JObj (fmap_of_list [(''success'', JBool False),
                                     (''message'', JStr ''Student not found'')])\<rparr>\<rparr>)"
    and "delete_student_v2 e i d =
           (Inr (), \<lparr>store = \<lparr>students = Some xs, disk = Some xs, ops = ops d @ [Read]\<rparr>,
                     res = Some \<lparr>status = 404,
                       body = JObj (fmap_of_list [(''success'', JBool False),
                                     (''message'', JStr ''Student not found'')])\<rparr>\<rparr>)"
proof -
  have n: "findIndex (id_matches i) xs = Inr (- 1)"
    by (rule findIndex_none [OF no_match_at_all [OF assms(3)]])
  note p = put_student_try_absent [OF assms(1,2) n, of c]
  note q = delete_student_try_absent [OF assms(1,2) n]
  show "put_student_v1 e i c d =
           (Inr (), \<lparr>store = \<lparr>students = Some xs, disk = Some xs, ops = ops d @ [Read]\<rparr>,
                     res = Some \<lparr>status = 404,
                       body = JObj (fmap_of_list [(''success'', JBool False),
                                     (''message'', JStr ''Student not found'')])\<rparr>\<rparr>)"
    unfolding put_student_v1_def p not_found_body_eq by (rule catch_500_ok)
  show "put_student_v2 e i c d =
           (Inr (), \<lparr>store = \<lparr>students = Some xs, disk = Some xs, ops = ops d @ [Read]\<rparr>,
                     res = Some \<lparr>status = 404,
                       body = JObj (fmap_of_list [(''success'', JBool False),
                                     (''message'', JStr ''Student not found'')])\<rparr>\<rparr>)"
    unfolding put_student_v2_def p not_found_body_eq by (rule catch_500_ok)
  show "delete_student_v1 e i d =
           (Inr (), \<lparr>store = \<lparr>students = Some xs, disk = Some xs, ops = ops d @ [Read]\<rparr>,
                     res = Some \<lparr>status = 404,
                       body = JObj (fmap_of_list [(''success'', JBool False),
                                     (''message'', JStr ''Student not found'')])\<rparr>\<rparr>)"
    unfolding delete_student_v1_def q not_found_body_eq by (rule catch_500_ok)
  show "delete_student_v2 e i d =
           (Inr (), \<lparr>store = \<lparr>students = Some xs, disk = Some xs, ops = ops d @ [Read]\<rparr>,
                     res = Some \<lparr>status = 404,
                       body = JObj (fmap_of_list [(''success'', JBool False),
                                     (''message'', JStr ''Student not found'')])\<rparr>\<rparr>)"
    unfolding delete_student_v2_def q not_found_body_eq by (rule catch_500_ok)
qed

lemma throws_500:
  assumes "read_error e = None" "disk d = Some xs"
    and "findIndex (id_matches i) xs = Inl err"
  shows "put_student_v1 e i c d =
           (Inr (), \<lparr>store = \<lparr>students = Some xs, disk = Some xs, ops = ops d @ [Read]\<rparr>,
                     res = Some \<lparr>status = 500,
                       body = JObj (fmap_of_list [(''success'', JBool False),
                                     (''message'', JStr ''Error updating students''),
                                     (''error'', JStr (error_message err))])\<rparr>\<rparr>)"
    and "put_student_v2 e i c d =
           (Inr (), \<lparr>store = \<lparr>students = Some xs, disk = Some xs, ops = ops d @ [Read]\<rparr>,
                     res = Some \<lparr>status = 500,
                       body = JObj (fmap_of_list [(''success'', JBool False),
                                     (''message'', JStr ''Error updating student''),
                                     (''error'', JStr (error_message err))])\<rparr>\<rparr>)"
    and "delete_student_v1 e i d =
           (Inr (), \<lparr>store = \<lparr>students = Some xs, disk = Some xs, ops = ops d @ [Read]\<rparr>,
                     res = Some \<lparr>status = 500,
                       body = JObj (fmap_of_list [(''success'', JBool False),
                                     (''message'', JStr ''Error deleting resource''),
                                     (''error'', JStr (error_message err))])\<rparr>\<rparr>)"
    and "delete_student_v2 e i d =
           (Inr (), \<lparr>store = \<lparr>students = Some xs, disk = Some xs, ops = ops d @ [Read]\<rparr>,
                     res = Some \<lparr>status = 500,
                       body = JObj (fmap_of_list [(''success'', JBool False),
                                     (''message'', JStr ''Error deleting student''),
                                     (''error'', JStr (error_message err))])\<rparr>\<rparr>)"
  unfolding put_student_v1_def put_student_v2_def delete_student_v1_def delete_student_v2_def
    put_student_try_throws [OF assms] delete_student_try_throws [OF assms]
  by (simp_all add: catch_500_fresh)

section \<open>The value model at concrete values\<close>

lemma js_String_values:
  "js_String None = Inr ''undefined''"
  "js_String (Some JNull) = Inr ''null''"
  "js_String (Some (JBool True)) = Inr ''true''"
  "js_String (Some (JBool False)) = Inr ''false''"
  "js_String (Some (JNum (Num ''1e+21''))) = Inr ''1e+21''"
  "js_String (Some (JStr ''a1'')) = Inr ''a1''"
  "js_String (Some (JArr [])) = Inr []"
  "js_String (Some (JArr [JNum (Num ''1''), JNull, JArr [JStr ''a'', JStr ''b'']])) = Inr ''1,,a,b''"
  "js_String (Some (JObj fmempty)) = Inr ''[object Object]''"
  "js_String (Some (JObj (fmap_of_list [(''valueOf'', JNull)]))) = Inr ''[object Object]''"
  "js_String (Some (JObj (fmap_of_list [(''toString'', JNull)])))
     = Inl (TypeError ''Cannot convert object to primitive value'')"
  "js_String (Some (JArr [JStr ''a'', JObj (fmap_of_list [(''toString'', JStr ''x'')]), JStr ''b'']))
     = Inl (TypeError ''Cannot convert object to primitive value'')"
  by (simp_all add: js_String_def cannot_convert_def)

lemma to_json_values:
  "to_json (JNum (Num ''Infinity'')) = JNull"
  "to_json (JNum (Num ''-Infinity'')) = JNull"
  "to_json (JNum (Num ''NaN'')) = JNull"
  "to_json (JNum (Num ''1e+21'')) = JNum (Num ''1e+21'')"
  "to_json (JArr [JNum (Num ''Infinity''), JStr ''Infinity'']) = JArr [JNull, JStr ''Infinity'']"
  "to_json (JObj (fmap_of_list [(''score'', JNum (Num ''Infinity''))]))
     = JObj (fmap_of_list [(''score'', JNull)])"
  by (simp_all add: fmmap_fmupd)

lemma to_json_idem: "to_json (to_json v) = to_json v"
proof (induction v)
  case (JArr vs)
  then show ?case by simp
next
  case (JObj ob)
  have "fmmap to_json (fmmap to_json ob) = fmmap to_json ob"
  proof (rule fmap_ext)
    fix k
    show "fmlookup (fmmap to_json (fmmap to_json ob)) k = fmlookup (fmmap to_json ob) k"
    proof (cases "fmlookup ob k")
      case None
      then show ?thesis by simp
    next
      case (Some v)
      then have "v \<in> fmran' ob" by (auto simp: fmlookup_ran'_iff)
      with JObj Some show ?thesis by simp
    qed
  qed
  then show ?case by simp
qed simp_all

lemma truthy_iff:
  "truthy v \<longleftrightarrow>
     v \<noteq> None \<and> v \<noteq> Some JNull \<and> v \<noteq> Some (JBool False) \<and> v \<noteq> Some (JNum (Num ''0''))
     \<and> v \<noteq> Some (JNum (Num ''NaN'')) \<and> v \<noteq> Some (JStr [])"
proof (cases v)
  case None
  then show ?thesis by (simp add: truthy_def)
next
  case (Some w)
  then show ?thesis by (cases w) (auto simp: truthy_def zero_jsnum_def)
qed

lemma show_values:
  "show_nat 0 = ''0''" "show_nat 120 = ''120''" "show_int (- 7) = ''-7''"
  "num_of_length 2 = Num ''2''"
  by (simp_all add: show_nat.simps digit_def show_int_def num_of_length_def)

lemma obj_lit_values:
  "obj_lit [] = fmempty"
  "obj_lit [(k, None)] = fmempty"
  "fmlookup (obj_lit [(''a'', Some JNull), (''a'', Some (JBool True))]) ''a'' = Some (JBool True)"
  by (simp_all add: obj_lit_def)

lemma splice_values:
  "splice 1 1 [a, b, c] = ([b], [a, c])"
  "splice (- 1) 1 [a, b, c] = ([c], [a, b])"
  "splice 5 1 [a] = ([], [a])"
  "splice 0 2 [a] = ([a], [])"
  "first_elem ([] :: nat list) = None"
  "array_get [a] 1 = None" "array_get [a] (- 1) = None" "array_get [a] 0 = Some a"
  by (simp_all add: splice_def first_elem_def array_get_def)

lemma iso8601_values:
  "iso8601 ''2025-06-01T12:00:00.000Z''"
  "\<not> iso8601 ''2025-06-01 12:00:00.000Z''"
  "\<not> iso8601 ''2025-06-01T12:00:00Z''"
  "\<not> iso8601 ''2O25-06-01T12:00:00.000Z''"
  by (simp_all add: iso8601_def is_digit_def)

lemma error_messages:
  "error_message (cannot_read ''find'')
     = ''Cannot read properties of undefined (reading '' @ [CHR 0x27] @ ''find'' @ [CHR 0x27] @ '')''"
  "error_message (not_defined ''item'') = ''item is not defined''"
  "error_message (StorageError m) = m"
  "error_message HeadersSent = ''Cannot set headers after they are sent to the client''"
  by (simp_all add: cannot_read_def not_defined_def)

section \<open>The other paths of the handlers\<close>

text \<open>The list handler on a collection that is present.\<close>

lemma get_students_lists:
  assumes "read_error e = None" "disk d = Some xs"
  shows "get_students e d =
           (Inr (),
            \<lparr>store = \<lparr>students = Some xs, disk = Some xs, ops = ops d @ [Read]\<rparr>,
             res = Some \<lparr>status = 200,
                    body = JObj (fmap_of_list [(''success'', JBool True),
                                  (''count'', JNum (num_of_length (length xs))),
                                  (''data'', JArr (map (\<lambda>s. JObj (fmmap to_json s)) xs))])\<rparr>\<rparr>)"
proof -
  have b: "fmmap to_json (obj_lit [(''success'', Some (JBool True)), (''count'', Some cnt),
                                   (''data'', Some dat)])
             = fmap_of_list [(''success'', JBool True), (''count'', to_json cnt), (''data'', to_json dat)]"
    for cnt dat
    unfolding obj_lit_def by (intro fmap_ext, auto simp: fmlookup_of_list)
  show ?thesis
    using assms
    by (simp add: get_students_def get_students_try_def step_defs b to_json_length comp_def
        del: to_json.simps(3))
qed

text \<open>A read that fails: every reading handler answers 500 with the error's message.\<close>

lemma read_fails:
  assumes "read_error e = Some msg"
  shows "get_students e d =
           (Inr (),
            \<lparr>store = d\<lparr>ops := ops d @ [Read]\<rparr>,
             res = Some \<lparr>status = 500,
                    body = JObj (fmap_of_list [(''success'', JBool False),
                                  (''message'', JStr ''Error retrieving students''),
                                  (''error'', JStr msg)])\<rparr>\<rparr>)"
    and "get_student_by_id_v1 e i d =
           (Inr (),
            \<lparr>store = d\<lparr>ops := ops d @ [Read]\<rparr>,
             res = Some \<lparr>status = 500,
                    body = JObj (fmap_of_list [(''success'', JBool False),
                                  (''message'', JStr ''Error retrieving student''),
                                  (''error'', JStr msg)])\<rparr>\<rparr>)"
    and "get_student_by_id_v2 e i d = get_student_by_id_v1 e i d"
    and "put_student_v1 e i c d =
           (Inr (),
            \<lparr>store = d\<lparr>ops := ops d @ [Read]\<rparr>,
             res = Some \<lparr>status = 500,
                    body = JObj (fmap_of_list [(''success'', JBool False),
                                  (''message'', JStr ''Error updating students''),
                                  (''error'', JStr msg)])\<rparr>\<rparr>)"
    and "put_student_v2 e i c d =
           (Inr (),
            \<lparr>store = d\<lparr>ops := ops d @ [Read]\<rparr>,
             res = Some \<lparr>status = 500,
                    body = JObj (fmap_of_list [(''success'', JBool False),
                                  (''message'', JStr ''Error updating student''),
                                  (''error'', JStr msg)])\<rparr>\<rparr>)"
    and "delete_student_v1 e i d =
           (Inr (),
            \<lparr>store = d\<lparr>ops := ops d @ [Read]\<rparr>,
             res = Some \<lparr>status = 500,
                    body = JObj (fmap_of_list [(''success'', JBool False),
                                  (''message'', JStr ''Error deleting resource''),
                                  (''error'', JStr msg)])\<rparr>\<rparr>)"
    and "delete_student_v2 e i d =
           (Inr (),
            \<lparr>store = d\<lparr>ops := ops d @ [Read]\<rparr>,
             res = Some \<lparr>status = 500,
                    body = JObj (fmap_of_list [(''success'', JBool False),
                                  (''message'', JStr ''Error deleting student''),
                                  (''error'', JStr msg)])\<rparr>\<rparr>)"
  using assms
  by (simp_all add: get_students_def get_students_try_def
      get_student_by_id_v1_def get_student_by_id_try_v1_def
      get_student_by_id_v2_def get_student_by_id_try_v2_def
      put_student_v1_def put_student_v2_def put_student_try_def
      delete_student_v1_def delete_student_v2_def delete_student_try_v1_def delete_student_try_v2_def
      then_do_def on_db_def start_def db_read_def catch_500_fresh)

text \<open>
  A write that fails: the handler answers 500; what it changed in memory stays changed and
  the disk is as it was.
\<close>

lemma write_fails_on_create:
  assumes "truthy (obj_get b ''name'')" "truthy (obj_get b ''email'')"
    and "students d = Some xs" "write_error e = Some msg"
  shows "post_student_v2 e b d =
           (Inr (),
            \<lparr>store = d\<lparr>students := Some (xs @ [new_student e (obj_get b ''name'') (obj_get b ''email'')]),
                       ops := ops d @ [Write]\<rparr>,
             res = Some \<lparr>status = 500,
                    body = JObj (fmap_of_list [(''success'', JBool False),
                                  (''message'', JStr ''Error creating student''),
                                  (''error'', JStr msg)])\<rparr>\<rparr>)"
  using assms
  by (simp add: post_student_v2_def post_student_try_def Let_def push_def
      then_do_def on_db_def start_def db_update_def db_write_def catch_500_fresh)

lemma write_fails_on_update:
  assumes "read_error e = None" "write_error e = Some msg" "disk d = Some xs"
    and "findIndex (id_matches i) xs = Inr (int k)" "k < length xs"
  shows "put_student_v2 e i c d =
           (Inr (),
            \<lparr>store = \<lparr>students = Some (xs[k := merged e (Some (xs ! k)) c]), disk = Some xs,
                       ops = ops d @ [Read, Write]\<rparr>,
             res = Some \<lparr>status = 500,
                    body = JObj (fmap_of_list [(''success'', JBool False),
                                  (''message'', JStr ''Error updating student''),
                                  (''error'', JStr msg)])\<rparr>\<rparr>)"
  using assms
  by (simp add: put_student_v2_def put_student_try_def Let_def array_get_in
      then_do_def on_db_def start_def db_read_def db_write_def catch_500_fresh)

text \<open>A create request when the document has no \<^verbatim>\<open>students\<close> key: the push throws.\<close>

lemma create_without_students_key:
  assumes "truthy (obj_get b ''name'')" "truthy (obj_get b ''email'')" "students d = None"
  shows "post_student_v2 e b d =
           (Inr (),
            \<lparr>store = d,
             res = Some \<lparr>status = 500,
                    body = JObj (fmap_of_list [(''success'', JBool False),
                                  (''message'', JStr ''Error creating student''),
                                  (''error'', JStr (error_message (cannot_read ''push'')))])\<rparr>\<rparr>)"
  using assms
  by (simp add: post_student_v2_def post_student_try_def Let_def push_def
      then_do_def on_db_def start_def db_update_def catch_500_fresh)

section \<open>The example requests\<close>

lemmas example_defs = env0_def ada_def bob_def tos_def db0_def db_tos_def db_nokey_def

lemmas value_defs = obj_lit_def obj_get_def js_String_def id_matches_def truthy_def
  findIndex_def array_get_def show_nat.simps digit_def num_of_length_def zero_jsnum_def


lemma example_env: "read_error env0 = None" "write_error env0 = None"
  "now env0 = ''2025-06-01T12:00:00.000Z''" "uuid env0 = ''u-42''"
  by (simp_all add: env0_def)

lemma example_stores:
  "disk db0 = Some [ada, bob]" "students db0 = Some [ada, bob]" "ops db0 = []"
  "disk db_tos = Some [tos, ada]" "students db_tos = Some [tos, ada]" "ops db_tos = []"
  by (simp_all add: db0_def db_tos_def)

lemma ids_of_examples:
  "js_String (fmlookup ada ''id'') = Inr ''a1''"
  "js_String (fmlookup bob ''id'') = Inr ''7''"
  "js_String (fmlookup tos ''id'') = Inl cannot_convert"
  by (simp_all add: js_String_def ada_def bob_def tos_def obj_lit_def)

lemma examples_json:
  "fmmap to_json ada = ada" "fmmap to_json bob = bob" "fmmap to_json tos = tos"
  by (simp_all add: ada_def bob_def tos_def obj_lit_def fmmap_fmupd)

lemma search_throws_at_tos:
  "findIndex (id_matches i) [tos, ada] = Inl cannot_convert"
  "js_find (id_matches i) [tos, ada] = Inl cannot_convert"
  by (simp_all add: findIndex_def id_matches_def obj_get_def js_String_def tos_def obj_lit_def)

lemma bob_found:
  "1 < length [ada, bob]"
  "js_String (fmlookup ([ada, bob] ! 1) ''id'') = Inr ''7''"
  "\<forall>j<1. \<exists>t. js_String (fmlookup ([ada, bob] ! j) ''id'') = Inr t \<and> t \<noteq> ''7''"
  by (simp_all add: ids_of_examples)

section \<open>Properties of the handlers\<close>

text \<open>
  Claim C1: a delete request whose identifier matches an existing student is answered with
  status 200 and a body whose data field is the removed student. The second variant does
  so (lemma \<open>delete_student_found\<close>). The first variant does not: it removes the student,
  then evaluates the undeclared variable \<^verbatim>\<open>deletedItem\<close> while building the body, and
  its \<^verbatim>\<open>catch\<close> block answers 500. Here it is run on a store that holds the two example
  students, for the identifier of the first.
\<close>

theorem C1_delete_v1_existing:
  "delete_student_v1 env0 ''a1'' db0 =
     (Inr (),
      \<lparr>store = \<lparr>students = Some [bob], disk = Some [bob], ops = [Read, Write]\<rparr>,
       res = Some \<lparr>status = 500,
              body = JObj (obj_lit [(''success'', Some (JBool False)),
                                    (''message'', Some (JStr ''Error deleting resource'')),
                                    (''error'', Some (JStr ''deletedItem is not defined''))])\<rparr>\<rparr>)"
  by (simp add: delete_student_v1_def delete_student_try_v1_def step_defs splice_out_def
      splice_def first_elem_def not_defined_def Let_def example_defs value_defs fmmap_fmupd)

text \<open>
  Claim C2, as stated, fails: an update whose payload has an \<^verbatim>\<open>id\<close> key replaces the
  identifier. The example student with id \<^verbatim>\<open>a1\<close> is updated with the payload
  \<^verbatim>\<open>{id: "zzz"}\<close>; the request succeeds and the persisted entity has id \<^verbatim>\<open>zzz\<close>, in
  both variants.
\<close>

theorem C2_payload_overrides_id:
  "obj_get ada ''id'' = Some (JStr ''a1'')
   \<and> obj_get c_id ''id'' = Some (JStr ''zzz'')
   \<and> status_of (put_student_v1 env0 ''a1'' c_id db0) = Some 200
   \<and> map_option (\<lambda>ys. obj_get (ys ! 0) ''id'') (disk (store (snd (put_student_v1 env0 ''a1'' c_id db0))))
        = Some (Some (JStr ''zzz''))
   \<and> put_student_v2 env0 ''a1'' c_id db0 = put_student_v1 env0 ''a1'' c_id db0"
proof -
  have h4: "0 < length [ada, bob]" by simp
  have h5: "js_String (fmlookup ([ada, bob] ! 0) ''id'') = Inr ''a1''" by (simp add: ids_of_examples)
  have h6: "\<forall>j<0. \<exists>t. js_String (fmlookup ([ada, bob] ! j) ''id'') = Inr t \<and> t \<noteq> ''a1''" by simp
  note a = put_student_found [OF example_env(1,2) example_stores(1) h4 h5 h6, of c_id]
  have v: "obj_get ada ''id'' = Some (JStr ''a1'')" "obj_get c_id ''id'' = Some (JStr ''zzz'')"
    by (simp_all add: ada_def c_id_def obj_lit_def obj_get_def)
  show ?thesis unfolding a using v by (simp add: status_of_def merged_lookup obj_get_def)
qed

text \<open>
  Claim C2, amended: when the search of an update request finds a student, at index \<open>k\<close>
  (the string form of its id is the requested identifier, and \<^verbatim>\<open>String\<close> of every earlier
  stored id returns and differs from it; file I/O succeeding), the id of the stored
  entity after the update is the payload's \<^verbatim>\<open>id\<close> when the payload has that key, and the
  entity's id before the update when it has not: in memory that value, on disk that value
  as JSON. Both variants.
\<close>

theorem C2_id_after_update:
  assumes "read_error e = None" "write_error e = None" "disk d = Some xs"
    and "k < length xs"
    and "js_String (fmlookup (xs ! k) ''id'') = Inr i"
    and "\<forall>j<k. \<exists>t. js_String (fmlookup (xs ! j) ''id'') = Inr t \<and> t \<noteq> i"
  shows "map_option (\<lambda>ys. fmlookup (ys ! k) ''id'') (disk (store (snd (put_student_v1 e i c d))))
           = Some (map_option to_json
                     (case fmlookup c ''id'' of Some v \<Rightarrow> Some v | None \<Rightarrow> fmlookup (xs ! k) ''id''))
       \<and> map_option (\<lambda>ys. fmlookup (ys ! k) ''id'') (students (store (snd (put_student_v1 e i c d))))
           = Some (case fmlookup c ''id'' of Some v \<Rightarrow> Some v | None \<Rightarrow> fmlookup (xs ! k) ''id'')
       \<and> put_student_v2 e i c d = put_student_v1 e i c d"
proof -
  note a = put_student_found [OF assms, of c]
  have u: "fmlookup (merged e (Some (xs ! k)) c) ''id''
             = (case fmlookup c ''id'' of Some v \<Rightarrow> Some v | None \<Rightarrow> fmlookup (xs ! k) ''id'')"
    by (simp add: merged_lookup)
  show ?thesis unfolding a using assms(4) u by simp
qed

text \<open>The theorem at the example requests.\<close>

theorem C2_id_after_update_witness:
  "read_error env0 = None \<and> write_error env0 = None \<and> disk db0 = Some [ada, bob]
   \<and> 1 < length [ada, bob]
   \<and> js_String (fmlookup ([ada, bob] ! 1) ''id'') = Inr ''7''
   \<and> js_String (fmlookup ([ada, bob] ! 0) ''id'') = Inr ''a1''
   \<and> fmlookup c_email ''id'' = None
   \<and> map_option (\<lambda>ys. fmlookup (ys ! 1) ''id'')
        (disk (store (snd (put_student_v1 env0 ''7'' c_email db0)))) = Some (Some (JNum (Num ''7'')))
   \<and> map_option (\<lambda>ys. fmlookup (ys ! 1) ''id'')
        (students (store (snd (put_student_v1 env0 ''7'' c_email db0)))) = Some (Some (JNum (Num ''7'')))
   \<and> put_student_v2 env0 ''7'' c_email db0 = put_student_v1 env0 ''7'' c_email db0"
proof -
  have h4: "1 < length [ada, bob]" by simp
  have h5: "js_String (fmlookup ([ada, bob] ! 1) ''id'') = Inr ''7''" by (simp add: ids_of_examples)
  have h0: "js_String (fmlookup ([ada, bob] ! 0) ''id'') = Inr ''a1''" by (simp add: ids_of_examples)
  have h6: "\<forall>j<1. \<exists>t. js_String (fmlookup ([ada, bob] ! j) ''id'') = Inr t \<and> t \<noteq> ''7''"
    using h0 by simp
  have v: "fmlookup bob ''id'' = Some (JNum (Num ''7''))" "fmlookup c_email ''id'' = None"
    by (simp_all add: bob_def c_email_def obj_lit_def)
  from C2_id_after_update [OF example_env(1,2) example_stores(1) h4 h5 h6, of c_email]
    example_env(1,2) example_stores(1) h5 h0 v
  show ?thesis by simp
qed

text \<open>
  Claim C3: a create request whose payload lacks \<^verbatim>\<open>name\<close> or \<^verbatim>\<open>email\<close> (the key is absent,
  or its value is the empty string) is answered with status 400, and the datastore is
  left exactly as it was: the collection in memory and on disk is unchanged and no file
  operation was attempted. Both variants.
\<close>

theorem C3_create_missing_field:
  assumes "obj_get b ''name'' = None \<or> obj_get b ''name'' = Some (JStr '''') \<or>
           obj_get b ''email'' = None \<or> obj_get b ''email'' = Some (JStr '''')"
  shows "post_student_v1 e b d =
           (Inr (), \<lparr>store = d,
                     res = Some \<lparr>status = 400,
                       body = JObj (obj_lit [(''success'', Some (JBool False)),
                                (''message'', Some (JStr ''Name and email are required''))])\<rparr>\<rparr>)
       \<and> post_student_v2 e b d =
           (Inr (), \<lparr>store = d,
                     res = Some \<lparr>status = 400,
                       body = JObj (obj_lit [(''success'', Some (JBool False)),
                                (''message'', Some (JStr ''Name and email are required''))])\<rparr>\<rparr>)"
proof -
  from assms have "\<not> truthy (obj_get b ''name'') \<or> \<not> truthy (obj_get b ''email'')"
    by (auto simp: truthy_def)
  then have "post_student_try e b (start d) =
           (Inr (), \<lparr>store = d,
                     res = Some \<lparr>status = 400,
                       body = JObj (obj_lit [(''success'', Some (JBool False)),
                                (''message'', Some (JStr ''Name and email are required''))])\<rparr>\<rparr>)"
    by (auto simp: post_student_try_def Let_def res_json_def start_def obj_lit_def fmmap_fmupd)
  then show ?thesis
    by (simp add: post_student_v1_def post_student_v2_def catch_500_ok)
qed

text \<open>The theorem at the example requests.\<close>

theorem C3_create_missing_field_witness:
  "(obj_get b_noemail ''name'' = None \<or> obj_get b_noemail ''name'' = Some (JStr '''') \<or>
    obj_get b_noemail ''email'' = None \<or> obj_get b_noemail ''email'' = Some (JStr ''''))
   \<and> post_student_v1 env0 b_noemail db0 =
           (Inr (), \<lparr>store = db0,
                     res = Some \<lparr>status = 400,
                       body = JObj (obj_lit [(''success'', Some (JBool False)),
                                (''message'', Some (JStr ''Name and email are required''))])\<rparr>\<rparr>)
   \<and> post_student_v2 env0 b_noemail db0 =
           (Inr (), \<lparr>store = db0,
                     res = Some \<lparr>status = 400,
                       body = JObj (obj_lit [(''success'', Some (JBool False)),
                                (''message'', Some (JStr ''Name and email are required''))])\<rparr>\<rparr>)"
proof -
  have h: "obj_get b_noemail ''name'' = None \<or> obj_get b_noemail ''name'' = Some (JStr '''') \<or>
    obj_get b_noemail ''email'' = None \<or> obj_get b_noemail ''email'' = Some (JStr '''')"
    by (simp add: b_noemail_def obj_lit_def obj_get_def)
  from h C3_create_missing_field [OF h, of env0 db0] show ?thesis by blast
qed




text \<open>
  Claim C5, as stated, fails: a get-by-id request is not always answered with 200 or
  404. The collection holds a student whose id is the object \<^verbatim>\<open>{toString: 1}\<close>, followed
  by the student with id \<^verbatim>\<open>a1\<close>. The request for \<^verbatim>\<open>a1\<close> converts the first id, which
  throws, and is answered with 500 in both variants, although the second student matches.
\<close>

theorem C5_get_by_id_throws_500:
  "fmlookup ada ''id'' = Some (JStr ''a1'')
   \<and> get_student_by_id_v2 env0 ''a1'' db_tos =
       (Inr (),
        \<lparr>store = \<lparr>students = Some [tos, ada], disk = Some [tos, ada], ops = [Read]\<rparr>,
         res = Some \<lparr>status = 500,
                body = JObj (fmap_of_list [(''success'', JBool False),
                              (''message'', JStr ''Error retrieving student''),
                              (''error'', JStr ''Cannot convert object to primitive value'')])\<rparr>\<rparr>)
   \<and> get_student_by_id_v1 env0 ''a1'' db_tos = get_student_by_id_v2 env0 ''a1'' db_tos"
proof -
  have h3: "0 < length [tos, ada]" by simp
  have h4: "js_String (fmlookup ([tos, ada] ! 0) ''id'') = Inl cannot_convert"
    by (simp add: ids_of_examples)
  have h5: "\<forall>j<0. \<exists>t. js_String (fmlookup ([tos, ada] ! j) ''id'') = Inr t \<and> t \<noteq> ''a1''" by simp
  note t = get_student_by_id_throws [OF example_env(1) example_stores(4) h3 h4 h5]
  have v: "fmlookup ada ''id'' = Some (JStr ''a1'')" by (simp add: ada_def obj_lit_def)
  show ?thesis unfolding t using v by (simp add: example_stores cannot_convert_def)
qed

text \<open>
  Claim C5, amended: a get-by-id request reloads the store (one read, no write; the
  collection on disk is untouched and the collection in memory equals it) and searches
  the collection in order, comparing \<^verbatim>\<open>String\<close> of each stored id with the requested
  identifier, so that a stored number matches the string of its string form. When the
  first entry whose id has the requested string form is at index \<open>k\<close>, every earlier id
  having another string form, it answers 200 with that entity, as JSON. When every stored id has
  another string form, it answers 404. When \<^verbatim>\<open>String\<close> throws on the id at index \<open>k\<close>,
  every earlier id having another string form, it answers 500 with the message of that
  error. In the first variant the state and the response are the same; after the 200 it
  runs into the undeclared variable \<^verbatim>\<open>item\<close>, and the second send of its \<^verbatim>\<open>catch\<close> block
  throws, which the client does not see.
\<close>

theorem C5_get_by_id:
  assumes "read_error e = None" "disk d = Some xs"
  shows
    "(k < length xs \<and> js_String (fmlookup (xs ! k) ''id'') = Inr i
        \<and> (\<forall>j<k. \<exists>t. js_String (fmlookup (xs ! j) ''id'') = Inr t \<and> t \<noteq> i)
      \<longrightarrow> get_student_by_id_v2 e i d =
           (Inr (),
            \<lparr>store = \<lparr>students = Some xs, disk = Some xs, ops = ops d @ [Read]\<rparr>,
             res = Some \<lparr>status = 200,
                    body = JObj (fmap_of_list [(''success'', JBool True), (''data'', JObj (fmmap to_json (xs ! k)))])\<rparr>\<rparr>)
        \<and> get_student_by_id_v1 e i d = (Inl HeadersSent, snd (get_student_by_id_v2 e i d)))
   \<and> ((\<forall>s\<in>set xs. \<exists>t. js_String (fmlookup s ''id'') = Inr t \<and> t \<noteq> i)
      \<longrightarrow> get_student_by_id_v2 e i d =
           (Inr (),
            \<lparr>store = \<lparr>students = Some xs, disk = Some xs, ops = ops d @ [Read]\<rparr>,
             res = Some \<lparr>status = 404,
                    body = JObj (fmap_of_list [(''success'', JBool False),
                                  (''message'', JStr ''Student not found'')])\<rparr>\<rparr>)
        \<and> get_student_by_id_v1 e i d = get_student_by_id_v2 e i d)
   \<and> (k < length xs \<and> js_String (fmlookup (xs ! k) ''id'') = Inl err
        \<and> (\<forall>j<k. \<exists>t. js_String (fmlookup (xs ! j) ''id'') = Inr t \<and> t \<noteq> i)
      \<longrightarrow> get_student_by_id_v2 e i d =
           (Inr (),
            \<lparr>store = \<lparr>students = Some xs, disk = Some xs, ops = ops d @ [Read]\<rparr>,
             res = Some \<lparr>status = 500,
                    body = JObj (fmap_of_list [(''success'', JBool False),
                                  (''message'', JStr ''Error retrieving student''),
                                  (''error'', JStr (error_message err))])\<rparr>\<rparr>)
        \<and> get_student_by_id_v1 e i d = get_student_by_id_v2 e i d)"
proof (intro conjI impI; (elim conjE)?)
  assume h: "k < length xs" "js_String (fmlookup (xs ! k) ''id'') = Inr i"
    "\<forall>j<k. \<exists>t. js_String (fmlookup (xs ! j) ''id'') = Inr t \<and> t \<noteq> i"
  note t = get_student_by_id_found [OF assms h]
  show "get_student_by_id_v2 e i d =
           (Inr (),
            \<lparr>store = \<lparr>students = Some xs, disk = Some xs, ops = ops d @ [Read]\<rparr>,
             res = Some \<lparr>status = 200,
                    body = JObj (fmap_of_list [(''success'', JBool True), (''data'', JObj (fmmap to_json (xs ! k)))])\<rparr>\<rparr>)"
    by (rule t(1))
  show "get_student_by_id_v1 e i d = (Inl HeadersSent, snd (get_student_by_id_v2 e i d))"
    unfolding t by simp
next
  assume h: "\<forall>s\<in>set xs. \<exists>t. js_String (fmlookup s ''id'') = Inr t \<and> t \<noteq> i"
  note t = get_student_by_id_absent [OF assms h]
  show "get_student_by_id_v2 e i d =
           (Inr (),
            \<lparr>store = \<lparr>students = Some xs, disk = Some xs, ops = ops d @ [Read]\<rparr>,
             res = Some \<lparr>status = 404,
                    body = JObj (fmap_of_list [(''success'', JBool False),
                                  (''message'', JStr ''Student not found'')])\<rparr>\<rparr>)"
    by (rule t(1))
  show "get_student_by_id_v1 e i d = get_student_by_id_v2 e i d"
    unfolding t by simp
next
  assume h: "k < length xs" "js_String (fmlookup (xs ! k) ''id'') = Inl err"
    "\<forall>j<k. \<exists>t. js_String (fmlookup (xs ! j) ''id'') = Inr t \<and> t \<noteq> i"
  note t = get_student_by_id_throws [OF assms h]
  show "get_student_by_id_v2 e i d =
           (Inr (),
            \<lparr>store = \<lparr>students = Some xs, disk = Some xs, ops = ops d @ [Read]\<rparr>,
             res = Some \<lparr>status = 500,
                    body = JObj (fmap_of_list [(''success'', JBool False),
                                  (''message'', JStr ''Error retrieving student''),
                                  (''error'', JStr (error_message err))])\<rparr>\<rparr>)"
    by (rule t(1))
  show "get_student_by_id_v1 e i d = get_student_by_id_v2 e i d"
    unfolding t by simp
qed

text \<open>The theorem at the example requests.\<close>

theorem C5_get_by_id_witness:
  "read_error env0 = None \<and> disk db0 = Some [ada, bob]
   \<and> fmlookup bob ''id'' = Some (JNum (Num ''7''))
   \<and> js_String (fmlookup ([ada, bob] ! 1) ''id'') = Inr ''7''
   \<and> js_String (fmlookup ([ada, bob] ! 0) ''id'') = Inr ''a1''
   \<and> get_student_by_id_v2 env0 ''7'' db0 =
       (Inr (),
        \<lparr>store = \<lparr>students = Some [ada, bob], disk = Some [ada, bob], ops = [Read]\<rparr>,
         res = Some \<lparr>status = 200,
                body = JObj (fmap_of_list [(''success'', JBool True), (''data'', JObj (fmmap to_json bob))])\<rparr>\<rparr>)
   \<and> get_student_by_id_v1 env0 ''7'' db0 = (Inl HeadersSent, snd (get_student_by_id_v2 env0 ''7'' db0))
   \<and> get_student_by_id_v2 env0 ''nobody'' db0 =
       (Inr (),
        \<lparr>store = \<lparr>students = Some [ada, bob], disk = Some [ada, bob], ops = [Read]\<rparr>,
         res = Some \<lparr>status = 404,
                body = JObj (fmap_of_list [(''success'', JBool False),
                              (''message'', JStr ''Student not found'')])\<rparr>\<rparr>)
   \<and> get_student_by_id_v1 env0 ''nobody'' db0 = get_student_by_id_v2 env0 ''nobody'' db0
   \<and> js_String (fmlookup ([tos, ada] ! 0) ''id'') = Inl cannot_convert
   \<and> get_student_by_id_v2 env0 ''a1'' db_tos =
       (Inr (),
        \<lparr>store = \<lparr>students = Some [tos, ada], disk = Some [tos, ada], ops = [Read]\<rparr>,
         res = Some \<lparr>status = 500,
                body = JObj (fmap_of_list [(''success'', JBool False),
                              (''message'', JStr ''Error retrieving student''),
                              (''error'', JStr (error_message cannot_convert))])\<rparr>\<rparr>)"
proof -
  have v: "fmlookup bob ''id'' = Some (JNum (Num ''7''))" by (simp add: bob_def obj_lit_def)
  have h1: "js_String (fmlookup ([ada, bob] ! 1) ''id'') = Inr ''7''" by (simp add: ids_of_examples)
  have h0: "js_String (fmlookup ([ada, bob] ! 0) ''id'') = Inr ''a1''" by (simp add: ids_of_examples)
  have ht: "js_String (fmlookup ([tos, ada] ! 0) ''id'') = Inl cannot_convert"
    by (simp add: ids_of_examples)
  have found: "1 < length [ada, bob] \<and> js_String (fmlookup ([ada, bob] ! 1) ''id'') = Inr ''7''
        \<and> (\<forall>j<1. \<exists>t. js_String (fmlookup ([ada, bob] ! j) ''id'') = Inr t \<and> t \<noteq> ''7'')"
    using h1 h0 by simp
  have absent: "\<forall>s\<in>set [ada, bob]. \<exists>t. js_String (fmlookup s ''id'') = Inr t \<and> t \<noteq> ''nobody''"
    by (simp add: ids_of_examples)
  have throws: "0 < length [tos, ada] \<and> js_String (fmlookup ([tos, ada] ! 0) ''id'') = Inl cannot_convert
        \<and> (\<forall>j<0. \<exists>t. js_String (fmlookup ([tos, ada] ! j) ''id'') = Inr t \<and> t \<noteq> ''a1'')"
    using ht by simp
  note a = C5_get_by_id [OF example_env(1) example_stores(1), of 1 "''7''" cannot_convert, unfolded example_stores]
  note b = C5_get_by_id [OF example_env(1) example_stores(1), of 0 "''nobody''" cannot_convert, unfolded example_stores]
  note c = C5_get_by_id [OF example_env(1) example_stores(4), of 0 "''a1''" cannot_convert,
      unfolded example_stores]
  from a found have a': "get_student_by_id_v2 env0 ''7'' db0 =
       (Inr (),
        \<lparr>store = \<lparr>students = Some [ada, bob], disk = Some [ada, bob], ops = [Read]\<rparr>,
         res = Some \<lparr>status = 200,
                body = JObj (fmap_of_list [(''success'', JBool True), (''data'', JObj (fmmap to_json bob))])\<rparr>\<rparr>)
     \<and> get_student_by_id_v1 env0 ''7'' db0 = (Inl HeadersSent, snd (get_student_by_id_v2 env0 ''7'' db0))"
    by simp
  from b absent have b': "get_student_by_id_v2 env0 ''nobody'' db0 =
       (Inr (),
        \<lparr>store = \<lparr>students = Some [ada, bob], disk = Some [ada, bob], ops = [Read]\<rparr>,
         res = Some \<lparr>status = 404,
                body = JObj (fmap_of_list [(''success'', JBool False),
                              (''message'', JStr ''Student not found'')])\<rparr>\<rparr>)
     \<and> get_student_by_id_v1 env0 ''nobody'' db0 = get_student_by_id_v2 env0 ''nobody'' db0"
    by simp
  from c throws have c': "get_student_by_id_v2 env0 ''a1'' db_tos =
       (Inr (),
        \<lparr>store = \<lparr>students = Some [tos, ada], disk = Some [tos, ada], ops = [Read]\<rparr>,
         res = Some \<lparr>status = 500,
                body = JObj (fmap_of_list [(''success'', JBool False),
                              (''message'', JStr ''Error retrieving student''),
                              (''error'', JStr (error_message cannot_convert))])\<rparr>\<rparr>)"
    by simp
  from example_env(1) example_stores(1) v h1 h0 ht a' b' c' show ?thesis by blast
qed

text \<open>
  Claim C6, as stated, fails: an update or delete request for an identifier that no
  student has is not always answered with 404. The collection holds a student whose id
  is the object \<^verbatim>\<open>{toString: 1}\<close> and the student with id \<^verbatim>\<open>a1\<close>; the identifier \<^verbatim>\<open>nobody\<close>
  is requested. The search throws on the first id, and all four handlers answer 500
  (with no write).
\<close>

theorem C6_absent_id_throws_500:
  "js_String (fmlookup tos ''id'') = Inl cannot_convert
   \<and> js_String (fmlookup ada ''id'') = Inr ''a1''
   \<and> put_student_v1 env0 ''nobody'' c_email db_tos =
       (Inr (), \<lparr>store = \<lparr>students = Some [tos, ada], disk = Some [tos, ada], ops = [Read]\<rparr>,
                 res = Some \<lparr>status = 500,
                   body = JObj (fmap_of_list [(''success'', JBool False),
                                 (''message'', JStr ''Error updating students''),
                                 (''error'', JStr ''Cannot convert object to primitive value'')])\<rparr>\<rparr>)
   \<and> put_student_v2 env0 ''nobody'' c_email db_tos =
       (Inr (), \<lparr>store = \<lparr>students = Some [tos, ada], disk = Some [tos, ada], ops = [Read]\<rparr>,
                 res = Some \<lparr>status = 500,
                   body = JObj (fmap_of_list [(''success'', JBool False),
                                 (''message'', JStr ''Error updating student''),
                                 (''error'', JStr ''Cannot convert object to primitive value'')])\<rparr>\<rparr>)
   \<and> delete_student_v1 env0 ''nobody'' db_tos =
       (Inr (), \<lparr>store = \<lparr>students = Some [tos, ada], disk = Some [tos, ada], ops = [Read]\<rparr>,
                 res = Some \<lparr>status = 500,
                   body = JObj (fmap_of_list [(''success'', JBool False),
                                 (''message'', JStr ''Error deleting resource''),
                                 (''error'', JStr ''Cannot convert object to primitive value'')])\<rparr>\<rparr>)
   \<and> delete_student_v2 env0 ''nobody'' db_tos =
       (Inr (), \<lparr>store = \<lparr>students = Some [tos, ada], disk = Some [tos, ada], ops = [Read]\<rparr>,
                 res = Some \<lparr>status = 500,
                   body = JObj (fmap_of_list [(''success'', JBool False),
                                 (''message'', JStr ''Error deleting student''),
                                 (''error'', JStr ''Cannot convert object to primitive value'')])\<rparr>\<rparr>)"
  unfolding throws_500 [OF example_env(1) example_stores(4) search_throws_at_tos(1)]
  by (simp add: ids_of_examples example_stores cannot_convert_def)

text \<open>
  Claim C6, amended: an update or delete request such that \<^verbatim>\<open>String\<close> of every stored id
  returns and differs from the requested identifier is answered with status 404; the
  collection on disk is unchanged, the collection in memory equals it, and the only file
  operation is the read. All four handlers.
\<close>

theorem C6_absent_id:
  assumes "read_error e = None" "disk d = Some xs"
    and "\<forall>s\<in>set xs. \<exists>t. js_String (fmlookup s ''id'') = Inr t \<and> t \<noteq> i"
  shows "put_student_v1 e i c d =
           (Inr (), \<lparr>store = \<lparr>students = Some xs, disk = Some xs, ops = ops d @ [Read]\<rparr>,
                     res = Some \<lparr>status = 404,
                       body = JObj (fmap_of_list [(''success'', JBool False),
                                     (''message'', JStr ''Student not found'')])\<rparr>\<rparr>)
       \<and> put_student_v2 e i c d = put_student_v1 e i c d
       \<and> delete_student_v1 e i d = put_student_v1 e i c d
       \<and> delete_student_v2 e i d = put_student_v1 e i c d"
  unfolding absent_404 [OF assms] by simp

text \<open>The theorem at the example requests.\<close>

theorem C6_absent_id_witness:
  "read_error env0 = None \<and> disk db0 = Some [ada, bob]
   \<and> js_String (fmlookup ada ''id'') = Inr ''a1'' \<and> js_String (fmlookup bob ''id'') = Inr ''7''
   \<and> put_student_v1 env0 ''nobody'' c_email db0 =
           (Inr (), \<lparr>store = \<lparr>students = Some [ada, bob], disk = Some [ada, bob], ops = [Read]\<rparr>,
                     res = Some \<lparr>status = 404,
                       body = JObj (fmap_of_list [(''success'', JBool False),
                                     (''message'', JStr ''Student not found'')])\<rparr>\<rparr>)
   \<and> put_student_v2 env0 ''nobody'' c_email db0 = put_student_v1 env0 ''nobody'' c_email db0
   \<and> delete_student_v1 env0 ''nobody'' db0 = put_student_v1 env0 ''nobody'' c_email db0
   \<and> delete_student_v2 env0 ''nobody'' db0 = put_student_v1 env0 ''nobody'' c_email db0"
proof -
  have h3: "\<forall>s\<in>set [ada, bob]. \<exists>t. js_String (fmlookup s ''id'') = Inr t \<and> t \<noteq> ''nobody''"
    by (simp add: ids_of_examples)
  from C6_absent_id [OF example_env(1) example_stores(1) h3, of c_email]
    example_env(1) example_stores(1) ids_of_examples(1,2)
  show ?thesis unfolding example_stores by simp
qed

text \<open>
  Claim C7, as stated, fails: an update request on an existing student does not always
  merge and answer 200. The collection holds a student whose id is the object
  \<^verbatim>\<open>{toString: 1}\<close>, followed by the student with id \<^verbatim>\<open>a1\<close>. The update of \<^verbatim>\<open>a1\<close> throws
  in the search, on the first id; both variants answer 500 and nothing is merged or
  written.
\<close>

theorem C7_update_throws_500:
  "js_String (fmlookup tos ''id'') = Inl cannot_convert
   \<and> js_String (fmlookup ada ''id'') = Inr ''a1''
   \<and> put_student_v1 env0 ''a1'' c_email db_tos =
       (Inr (), \<lparr>store = \<lparr>students = Some [tos, ada], disk = Some [tos, ada], ops = [Read]\<rparr>,
                 res = Some \<lparr>status = 500,
                   body = JObj (fmap_of_list [(''success'', JBool False),
                                 (''message'', JStr ''Error updating students''),
                                 (''error'', JStr ''Cannot convert object to primitive value'')])\<rparr>\<rparr>)
   \<and> put_student_v2 env0 ''a1'' c_email db_tos =
       (Inr (), \<lparr>store = \<lparr>students = Some [tos, ada], disk = Some [tos, ada], ops = [Read]\<rparr>,
                 res = Some \<lparr>status = 500,
                   body = JObj (fmap_of_list [(''success'', JBool False),
                                 (''message'', JStr ''Error updating student''),
                                 (''error'', JStr ''Cannot convert object to primitive value'')])\<rparr>\<rparr>)"
  unfolding throws_500 [OF example_env(1) example_stores(4) search_throws_at_tos(1)]
  by (simp add: ids_of_examples example_stores cannot_convert_def)

text \<open>
  Claim C7, amended: when the search of an update request finds a student, at index \<open>k\<close>
  (the string form of its id is the requested identifier, and \<^verbatim>\<open>String\<close> of every earlier
  stored id returns and differs from it; file I/O succeeding), that entity is replaced
  by \<open>m\<close>, the shallow merge of its prior fields with the payload, payload values
  winning, plus \<^verbatim>\<open>updatedAt\<close> set to the current time; every other entity stays. The
  collection is persisted and \<open>m\<close> is returned with status 200; what is on disk and in
  the response is JSON, as \<open>to_json\<close> gives it. A payload whose only key
  is \<^verbatim>\<open>email\<close> keeps \<^verbatim>\<open>name\<close> and \<^verbatim>\<open>id\<close> and sets \<^verbatim>\<open>email\<close>. Both variants.
\<close>

theorem C7_update_merges:
  assumes "read_error e = None" "write_error e = None" "disk d = Some xs"
    and "k < length xs"
    and "js_String (fmlookup (xs ! k) ''id'') = Inr i"
    and "\<forall>j<k. \<exists>t. js_String (fmlookup (xs ! j) ''id'') = Inr t \<and> t \<noteq> i"
    and "m = merged e (Some (xs ! k)) c"
  shows "put_student_v1 e i c d =
           (Inr (),
            \<lparr>store = \<lparr>students = Some (xs[k := m]), disk = Some (map (fmmap to_json) (xs[k := m])),
                       ops = ops d @ [Read, Write]\<rparr>,
             res = Some \<lparr>status = 200,
                    body = JObj (fmap_of_list [(''success'', JBool True), (''data'', JObj (fmmap to_json m))])\<rparr>\<rparr>)
       \<and> put_student_v2 e i c d = put_student_v1 e i c d
       \<and> fmlookup m key =
           (if key = ''updatedAt'' then Some (JStr (now e))
            else case fmlookup c key of Some v \<Rightarrow> Some v | None \<Rightarrow> fmlookup (xs ! k) key)
       \<and> (fmdom c = {|''email''|} \<longrightarrow>
             fmlookup m ''name'' = fmlookup (xs ! k) ''name''
           \<and> fmlookup m ''id'' = fmlookup (xs ! k) ''id''
           \<and> fmlookup m ''email'' = fmlookup c ''email'')"
proof -
  note t = put_student_found [OF assms(1-6), of c, folded assms(7)]
  have b: "put_student_v2 e i c d = put_student_v1 e i c d"
    unfolding t by (rule refl)
  have g: "fmlookup m key =
           (if key = ''updatedAt'' then Some (JStr (now e))
            else case fmlookup c key of Some v \<Rightarrow> Some v | None \<Rightarrow> fmlookup (xs ! k) key)" for key
    unfolding assms(7) by (rule merged_lookup)
  have h: "fmdom c = {|''email''|} \<longrightarrow>
             fmlookup m ''name'' = fmlookup (xs ! k) ''name''
           \<and> fmlookup m ''id'' = fmlookup (xs ! k) ''id''
           \<and> fmlookup m ''email'' = fmlookup c ''email''"
  proof
    assume "fmdom c = {|''email''|}"
    from email_only [OF this] show "fmlookup m ''name'' = fmlookup (xs ! k) ''name''
           \<and> fmlookup m ''id'' = fmlookup (xs ! k) ''id''
           \<and> fmlookup m ''email'' = fmlookup c ''email''"
      by (auto simp: g)
  qed
  show ?thesis by (intro conjI) (rule t(1) b g h)+
qed

text \<open>The theorem at the example requests.\<close>

theorem C7_update_merges_witness:
  "read_error env0 = None \<and> write_error env0 = None \<and> disk db0 = Some [ada, bob]
   \<and> 1 < length [ada, bob]
   \<and> js_String (fmlookup ([ada, bob] ! 1) ''id'') = Inr ''7''
   \<and> js_String (fmlookup ([ada, bob] ! 0) ''id'') = Inr ''a1''
   \<and> fmdom c_email = {|''email''|}
   \<and> put_student_v1 env0 ''7'' c_email db0 =
       (Inr (),
        \<lparr>store = \<lparr>students = Some [ada, merged env0 (Some bob) c_email],
                   disk = Some (map (fmmap to_json) [ada, merged env0 (Some bob) c_email]),
                   ops = [Read, Write]\<rparr>,
         res = Some \<lparr>status = 200,
                body = JObj (fmap_of_list [(''success'', JBool True),
                              (''data'', JObj (fmmap to_json (merged env0 (Some bob) c_email)))])\<rparr>\<rparr>)
   \<and> put_student_v2 env0 ''7'' c_email db0 = put_student_v1 env0 ''7'' c_email db0
   \<and> fmlookup (merged env0 (Some bob) c_email) ''name'' = Some (JStr ''Bob'')
   \<and> fmlookup (merged env0 (Some bob) c_email) ''id'' = Some (JNum (Num ''7''))
   \<and> fmlookup (merged env0 (Some bob) c_email) ''email'' = Some (JStr ''new@x.com'')
   \<and> fmlookup (merged env0 (Some bob) c_email) ''updatedAt'' = Some (JStr ''2025-06-01T12:00:00.000Z'')"
proof -
  have h7: "merged env0 (Some bob) c_email = merged env0 (Some ([ada, bob] ! 1)) c_email" by simp
  have dm: "fmdom c_email = {|''email''|}" by (simp add: c_email_def obj_lit_def)
  have v: "fmlookup bob ''name'' = Some (JStr ''Bob'')" "fmlookup bob ''id'' = Some (JNum (Num ''7''))"
    "fmlookup c_email ''email'' = Some (JStr ''new@x.com'')"
    by (simp_all add: bob_def c_email_def obj_lit_def)
  have h0: "js_String (fmlookup ([ada, bob] ! 0) ''id'') = Inr ''a1''" by (simp add: ids_of_examples)
  from C7_update_merges [OF example_env(1,2) example_stores(1) bob_found h7, of "''updatedAt''"]
    example_env(1,2,3) example_stores(1) bob_found(1,2) h0 dm v
  show ?thesis unfolding example_stores by simp
qed

text \<open>
  Claim C8, as stated, fails: a delete request whose identifier matches an existing
  student does not always remove it. The collection holds a student whose id is the
  object \<^verbatim>\<open>{toString: 1}\<close>, followed by the student with id \<^verbatim>\<open>a1\<close>. The delete of \<^verbatim>\<open>a1\<close>
  throws in the search, on the first id; both variants answer 500 and the collection
  keeps both students.
\<close>

theorem C8_delete_throws_500:
  "js_String (fmlookup tos ''id'') = Inl cannot_convert
   \<and> js_String (fmlookup ada ''id'') = Inr ''a1''
   \<and> delete_student_v1 env0 ''a1'' db_tos =
       (Inr (), \<lparr>store = \<lparr>students = Some [tos, ada], disk = Some [tos, ada], ops = [Read]\<rparr>,
                 res = Some \<lparr>status = 500,
                   body = JObj (fmap_of_list [(''success'', JBool False),
                                 (''message'', JStr ''Error deleting resource''),
                                 (''error'', JStr ''Cannot convert object to primitive value'')])\<rparr>\<rparr>)
   \<and> delete_student_v2 env0 ''a1'' db_tos =
       (Inr (), \<lparr>store = \<lparr>students = Some [tos, ada], disk = Some [tos, ada], ops = [Read]\<rparr>,
                 res = Some \<lparr>status = 500,
                   body = JObj (fmap_of_list [(''success'', JBool False),
                                 (''message'', JStr ''Error deleting student''),
                                 (''error'', JStr ''Cannot convert object to primitive value'')])\<rparr>\<rparr>)"
  unfolding throws_500 [OF example_env(1) example_stores(4) search_throws_at_tos(1)]
  by (simp add: ids_of_examples example_stores cannot_convert_def)

text \<open>
  Claim C8, amended: when the search of a delete request finds a student, at index \<open>k\<close>
  (the first entry whose id has the requested string form, \<^verbatim>\<open>String\<close> of every earlier
  stored id returning and differing from it; file I/O succeeding), exactly that entity
  is removed: the collection that is left is the entities before \<open>k\<close> followed by those
  after \<open>k\<close>, in their order, and is one shorter; on disk it is that collection as
  JSON. Both variants.
\<close>

theorem C8_delete_removes_first_match:
  assumes "read_error e = None" "write_error e = None" "disk d = Some xs"
    and "k < length xs"
    and "js_String (fmlookup (xs ! k) ''id'') = Inr i"
    and "\<forall>j<k. \<exists>t. js_String (fmlookup (xs ! j) ''id'') = Inr t \<and> t \<noteq> i"
  shows "store (snd (delete_student_v1 e i d)) =
           \<lparr>students = Some (take k xs @ drop (Suc k) xs),
            disk = Some (map (fmmap to_json) (take k xs @ drop (Suc k) xs)),
            ops = ops d @ [Read, Write]\<rparr>
       \<and> store (snd (delete_student_v2 e i d)) = store (snd (delete_student_v1 e i d))
       \<and> length (take k xs @ drop (Suc k) xs) + 1 = length xs"
proof -
  note t = delete_student_found [OF assms]
  have a: "store (snd (delete_student_v1 e i d)) =
           \<lparr>students = Some (take k xs @ drop (Suc k) xs),
            disk = Some (map (fmmap to_json) (take k xs @ drop (Suc k) xs)),
            ops = ops d @ [Read, Write]\<rparr>"
    unfolding t by simp
  have b: "store (snd (delete_student_v2 e i d)) = store (snd (delete_student_v1 e i d))"
    unfolding t by simp
  have l: "length (take k xs @ drop (Suc k) xs) + 1 = length xs"
    using assms(4) by simp
  show ?thesis by (intro conjI) (rule a b l)+
qed

text \<open>The theorem at the example requests.\<close>

theorem C8_delete_removes_first_match_witness:
  "read_error env0 = None \<and> write_error env0 = None \<and> disk db0 = Some [ada, bob]
   \<and> 1 < length [ada, bob]
   \<and> js_String (fmlookup ([ada, bob] ! 1) ''id'') = Inr ''7''
   \<and> js_String (fmlookup ([ada, bob] ! 0) ''id'') = Inr ''a1''
   \<and> store (snd (delete_student_v1 env0 ''7'' db0)) =
        \<lparr>students = Some [ada], disk = Some (map (fmmap to_json) [ada]), ops = [Read, Write]\<rparr>
   \<and> store (snd (delete_student_v2 env0 ''7'' db0)) = store (snd (delete_student_v1 env0 ''7'' db0))"
proof -
  have h0: "js_String (fmlookup ([ada, bob] ! 0) ''id'') = Inr ''a1''" by (simp add: ids_of_examples)
  from C8_delete_removes_first_match [OF example_env(1,2) example_stores(1) bob_found]
    example_env(1,2) example_stores(1) bob_found(1,2) h0
  show ?thesis unfolding example_stores by simp
qed

text \<open>
  Claim C9, as stated, fails: after an update request on an existing student the stored
  entity's \<^verbatim>\<open>updatedAt\<close> is not always the server's timestamp. The collection holds a
  student whose id is the object \<^verbatim>\<open>{toString: 1}\<close>, followed by the student with id
  \<^verbatim>\<open>a1\<close>, who has no \<^verbatim>\<open>updatedAt\<close>. The update of \<^verbatim>\<open>a1\<close>, with a payload that supplies an
  \<^verbatim>\<open>updatedAt\<close>, throws in the search; both variants answer 500 and the stored entity
  still has no \<^verbatim>\<open>updatedAt\<close>.
\<close>

theorem C9_update_throws_500:
  "js_String (fmlookup tos ''id'') = Inl cannot_convert
   \<and> js_String (fmlookup ada ''id'') = Inr ''a1''
   \<and> fmlookup c_updatedAt ''updatedAt'' = Some (JStr ''1999-01-01T00:00:00.000Z'')
   \<and> map_option status (res (snd (put_student_v1 env0 ''a1'' c_updatedAt db_tos))) = Some 500
   \<and> map_option status (res (snd (put_student_v2 env0 ''a1'' c_updatedAt db_tos))) = Some 500
   \<and> map_option (\<lambda>ys. fmlookup (ys ! 1) ''updatedAt'')
        (disk (store (snd (put_student_v1 env0 ''a1'' c_updatedAt db_tos)))) = Some None
   \<and> map_option (\<lambda>ys. fmlookup (ys ! 1) ''updatedAt'')
        (disk (store (snd (put_student_v2 env0 ''a1'' c_updatedAt db_tos)))) = Some None"
proof -
  have v: "fmlookup c_updatedAt ''updatedAt'' = Some (JStr ''1999-01-01T00:00:00.000Z'')"
    "fmlookup ada ''updatedAt'' = None"
    by (simp_all add: c_updatedAt_def ada_def obj_lit_def)
  show ?thesis
    unfolding throws_500 [OF example_env(1) example_stores(4) search_throws_at_tos(1)]
    using v by (simp add: ids_of_examples)
qed

text \<open>
  Claim C9, amended: when the search of an update request finds a student, at index \<open>k\<close>
  (the string form of its id is the requested identifier, and \<^verbatim>\<open>String\<close> of every earlier
  stored id returns and differs from it; file I/O succeeding), the stored entity's
  \<^verbatim>\<open>updatedAt\<close> after the update is the server's timestamp, whatever the payload holds,
  also when the payload has an \<^verbatim>\<open>updatedAt\<close> of its own. Both variants.
\<close>

theorem C9_updatedAt_server_set:
  assumes "read_error e = None" "write_error e = None" "disk d = Some xs"
    and "k < length xs"
    and "js_String (fmlookup (xs ! k) ''id'') = Inr i"
    and "\<forall>j<k. \<exists>t. js_String (fmlookup (xs ! j) ''id'') = Inr t \<and> t \<noteq> i"
  shows "map_option (\<lambda>ys. fmlookup (ys ! k) ''updatedAt'') (disk (store (snd (put_student_v1 e i c d))))
           = Some (Some (JStr (now e)))
       \<and> map_option (\<lambda>ys. fmlookup (ys ! k) ''updatedAt'') (students (store (snd (put_student_v1 e i c d))))
           = Some (Some (JStr (now e)))
       \<and> put_student_v2 e i c d = put_student_v1 e i c d"
proof -
  note a = put_student_found [OF assms, of c]
  have u: "fmlookup (merged e (Some (xs ! k)) c) ''updatedAt'' = Some (JStr (now e))"
    by (simp add: merged_lookup)
  show ?thesis unfolding a using assms(4) u by simp
qed

text \<open>The theorem at the example requests.\<close>

theorem C9_updatedAt_server_set_witness:
  "read_error env0 = None \<and> write_error env0 = None \<and> disk db0 = Some [ada, bob]
   \<and> 1 < length [ada, bob]
   \<and> js_String (fmlookup ([ada, bob] ! 1) ''id'') = Inr ''7''
   \<and> js_String (fmlookup ([ada, bob] ! 0) ''id'') = Inr ''a1''
   \<and> fmlookup c_updatedAt ''updatedAt'' = Some (JStr ''1999-01-01T00:00:00.000Z'')
   \<and> map_option (\<lambda>ys. fmlookup (ys ! 1) ''updatedAt'')
        (disk (store (snd (put_student_v1 env0 ''7'' c_updatedAt db0))))
        = Some (Some (JStr ''2025-06-01T12:00:00.000Z''))
   \<and> map_option (\<lambda>ys. fmlookup (ys ! 1) ''updatedAt'')
        (students (store (snd (put_student_v1 env0 ''7'' c_updatedAt db0))))
        = Some (Some (JStr ''2025-06-01T12:00:00.000Z''))
   \<and> put_student_v2 env0 ''7'' c_updatedAt db0 = put_student_v1 env0 ''7'' c_updatedAt db0"
proof -
  have p: "fmlookup c_updatedAt ''updatedAt'' = Some (JStr ''1999-01-01T00:00:00.000Z'')"
    by (simp add: c_updatedAt_def obj_lit_def)
  have h0: "js_String (fmlookup ([ada, bob] ! 0) ''id'') = Inr ''a1''" by (simp add: ids_of_examples)
  from C9_updatedAt_server_set [OF example_env(1,2) example_stores(1) bob_found, of c_updatedAt]
    example_env(1,2) example_stores(1) bob_found(1,2) h0 p
  show ?thesis unfolding example_env(3) by simp
qed

text \<open>
  Claim C10: when the loaded document has no \<^verbatim>\<open>students\<close> key, the list operation
  substitutes the empty array and answers 200 with count 0, while get-by-id, update and
  delete read a property of \<^verbatim>\<open>undefined\<close> and answer 500. Both variants.
\<close>

theorem C10_missing_students_key:
  assumes "read_error e = None" "disk d = None"
  shows "get_students e d =
           (Inr (),
            \<lparr>store = \<lparr>students = None, disk = None, ops = ops d @ [Read]\<rparr>,
             res = Some \<lparr>status = 200,
                    body = JObj (obj_lit [(''success'', Some (JBool True)),
                                          (''count'', Some (JNum 0)),
                                          (''data'', Some (JArr []))])\<rparr>\<rparr>)
       \<and> status_of (get_student_by_id_v1 e i d) = Some 500
       \<and> status_of (get_student_by_id_v2 e i d) = Some 500
       \<and> status_of (put_student_v1 e i c d) = Some 500
       \<and> status_of (put_student_v2 e i c d) = Some 500
       \<and> status_of (delete_student_v1 e i d) = Some 500
       \<and> status_of (delete_student_v2 e i d) = Some 500"
proof -
  have l: "get_students e d =
           (Inr (),
            \<lparr>store = \<lparr>students = None, disk = None, ops = ops d @ [Read]\<rparr>,
             res = Some \<lparr>status = 200,
                    body = JObj (obj_lit [(''success'', Some (JBool True)),
                                          (''count'', Some (JNum 0)),
                                          (''data'', Some (JArr []))])\<rparr>\<rparr>)"
    using assms by (simp add: get_students_def get_students_try_def step_defs
        num_of_length_def show_nat.simps digit_def zero_jsnum_def obj_lit_def fmmap_fmupd)
  note t = no_students_key [OF assms]
  have g1: "status_of (get_student_by_id_v1 e i d) = Some 500"
    unfolding get_student_by_id_v1_def t by (simp add: catch_500_fresh status_of_def)
  have g2: "status_of (get_student_by_id_v2 e i d) = Some 500"
    unfolding get_student_by_id_v2_def t by (simp add: catch_500_fresh status_of_def)
  have p1: "status_of (put_student_v1 e i c d) = Some 500"
    unfolding put_student_v1_def t by (simp add: catch_500_fresh status_of_def)
  have p2: "status_of (put_student_v2 e i c d) = Some 500"
    unfolding put_student_v2_def t by (simp add: catch_500_fresh status_of_def)
  have d1: "status_of (delete_student_v1 e i d) = Some 500"
    unfolding delete_student_v1_def t by (simp add: catch_500_fresh status_of_def)
  have d2: "status_of (delete_student_v2 e i d) = Some 500"
    unfolding delete_student_v2_def t by (simp add: catch_500_fresh status_of_def)
  show ?thesis by (intro conjI) (rule l g1 g2 p1 p2 d1 d2)+
qed

text \<open>The theorem at the example requests.\<close>

theorem C10_missing_students_key_witness:
  "read_error env0 = None \<and> disk db_nokey = None
   \<and> get_students env0 db_nokey =
           (Inr (),
            \<lparr>store = \<lparr>students = None, disk = None, ops = [Read]\<rparr>,
             res = Some \<lparr>status = 200,
                    body = JObj (obj_lit [(''success'', Some (JBool True)),
                                          (''count'', Some (JNum 0)),
                                          (''data'', Some (JArr []))])\<rparr>\<rparr>)
   \<and> status_of (get_student_by_id_v1 env0 ''a1'' db_nokey) = Some 500
   \<and> status_of (get_student_by_id_v2 env0 ''a1'' db_nokey) = Some 500
   \<and> status_of (put_student_v1 env0 ''a1'' c_email db_nokey) = Some 500
   \<and> status_of (put_student_v2 env0 ''a1'' c_email db_nokey) = Some 500
   \<and> status_of (delete_student_v1 env0 ''a1'' db_nokey) = Some 500
   \<and> status_of (delete_student_v2 env0 ''a1'' db_nokey) = Some 500"
proof -
  have h1: "read_error env0 = None" by (simp add: env0_def)
  have h2: "disk db_nokey = None" by (simp add: db_nokey_def)
  have o: "ops db_nokey = []" by (simp add: db_nokey_def)
  from C10_missing_students_key [OF h1 h2, of "''a1''" c_email] h1 h2
  show ?thesis unfolding o by simp
qed

end
